theory Spec2Isabelle
  imports Complex_Main
begin

section \<open>The emotion engine of src/src/ai/EmotionEngine.js\<close>

text \<open>
  The class \<open>EmotionEngine\<close> is embedded function by function. Its mutable fields
  (\<open>models\<close>, \<open>isInitialized\<close>, \<open>calibrationData\<close>, \<open>personalityProfile\<close>) form the
  record \<open>engine\<close>, which the methods that mutate \<open>this\<close> take and return. A \<open>throw\<close> is
  the left injection of a sum type.

  Scope of the model:
  \<^item> A JavaScript number is an exact real or one of the three non-finite values
    \<open>NaN\<close>, \<open>Infinity\<close>, \<open>-Infinity\<close>. Rounding and overflow of IEEE doubles are not
    modelled, and neither is the sign of zero: every divisor of the source is a length,
    a constant or a \<open>reduce\<close> started at \<open>0\<close>, none of which is ever \<open>-0\<close>.
  \<^item> \<open>calibrationData\<close> and \<open>personalityProfile\<close> are the well-formed objects that
    \<open>loadCalibrationData\<close> and \<open>initializePersonalityProfiling\<close> leave on success.
  \<^item> The classifiers and the fusion predictor (TensorFlow models fetched at run time)
    are functions held in the engine; each may raise.
  \<^item> The clock (\<open>new Date()\<close>) is a value handed to the function that reads it.
    The fields \<open>timestamp\<close> and \<open>processingTime\<close> of a result are left out.
  \<^item> \<open>saveCalibrationData\<close> and \<open>savePersonalityProfile\<close> write a file and swallow
    every error; they do not change the engine and are left out.
  \<^item> A method that the class calls and no file defines raises a \<open>TypeError\<close> where it
    is called.
\<close>

subsection \<open>JavaScript numbers\<close>

datatype jsnum = Num real | NaN | PosInf | NegInf

fun js_neg :: "jsnum \<Rightarrow> jsnum" where
  "js_neg (Num a) = Num (- a)"
| "js_neg NaN = NaN"
| "js_neg PosInf = NegInf"
| "js_neg NegInf = PosInf"

fun js_add :: "jsnum \<Rightarrow> jsnum \<Rightarrow> jsnum" where
  "js_add (Num a) (Num b) = Num (a + b)"
| "js_add NaN _ = NaN"
| "js_add _ NaN = NaN"
| "js_add PosInf NegInf = NaN"
| "js_add NegInf PosInf = NaN"
| "js_add PosInf _ = PosInf"
| "js_add _ PosInf = PosInf"
| "js_add NegInf _ = NegInf"
| "js_add _ NegInf = NegInf"

definition js_sub :: "jsnum \<Rightarrow> jsnum \<Rightarrow> jsnum" where
  "js_sub a b = js_add a (js_neg b)"

text \<open>The sign of a number that is not \<open>NaN\<close>: \<open>1\<close>, \<open>0\<close> or \<open>-1\<close>.\<close>

fun js_sign :: "jsnum \<Rightarrow> int" where
  "js_sign (Num a) = (if 0 < a then 1 else if a < 0 then - 1 else 0)"
| "js_sign PosInf = 1"
| "js_sign NegInf = - 1"
| "js_sign NaN = 0"

definition signed_inf :: "int \<Rightarrow> jsnum" where
  "signed_inf s = (if 0 < s then PosInf else if s < 0 then NegInf else NaN)"

fun js_mul :: "jsnum \<Rightarrow> jsnum \<Rightarrow> jsnum" where
  "js_mul (Num a) (Num b) = Num (a * b)"
| "js_mul NaN _ = NaN"
| "js_mul _ NaN = NaN"
| "js_mul a b = signed_inf (js_sign a * js_sign b)"

text \<open>
  Division. A finite divisor that is zero is \<open>+0\<close>: \<open>x / 0\<close> is \<open>Infinity\<close>,
  \<open>-Infinity\<close> or \<open>NaN\<close> as \<open>x\<close> is positive, negative or zero.
\<close>

fun js_div :: "jsnum \<Rightarrow> jsnum \<Rightarrow> jsnum" where
  "js_div (Num a) (Num b) = (if b = 0 then signed_inf (js_sign (Num a)) else Num (a / b))"
| "js_div NaN _ = NaN"
| "js_div _ NaN = NaN"
| "js_div (Num a) _ = Num 0"
| "js_div a (Num b) = signed_inf (js_sign a * (if b < 0 then - 1 else 1))"
| "js_div _ _ = NaN"

text \<open>\<open>a > b\<close>: false as soon as one side is \<open>NaN\<close>.\<close>

fun js_gt :: "jsnum \<Rightarrow> jsnum \<Rightarrow> bool" where
  "js_gt (Num a) (Num b) = (b < a)"
| "js_gt NaN _ = False"
| "js_gt _ NaN = False"
| "js_gt PosInf PosInf = False"
| "js_gt PosInf _ = True"
| "js_gt _ PosInf = False"
| "js_gt NegInf _ = False"
| "js_gt _ NegInf = True"

text \<open>\<open>a === b\<close> on numbers: \<open>NaN\<close> equals nothing.\<close>

definition js_eq :: "jsnum \<Rightarrow> jsnum \<Rightarrow> bool" where
  "js_eq a b = (a \<noteq> NaN \<and> a = b)"

text \<open>
  \<open>Math.max\<close> and \<open>Math.min\<close> of two numbers, and \<open>Math.max(...xs)\<close>, which is
  \<open>-Infinity\<close> for no argument and \<open>NaN\<close> as soon as one argument is.
\<close>

definition js_max :: "jsnum \<Rightarrow> jsnum \<Rightarrow> jsnum" where
  "js_max a b = (if a = NaN \<or> b = NaN then NaN else if js_gt b a then b else a)"

definition js_min :: "jsnum \<Rightarrow> jsnum \<Rightarrow> jsnum" where
  "js_min a b = (if a = NaN \<or> b = NaN then NaN else if js_gt a b then b else a)"

definition Math_max :: "jsnum list \<Rightarrow> jsnum" where
  "Math_max xs = foldl js_max NegInf xs"

text \<open>\<open>Math.sqrt\<close>, and \<open>Math.pow(x, 2)\<close>.\<close>

fun js_sqrt :: "jsnum \<Rightarrow> jsnum" where
  "js_sqrt (Num a) = (if a < 0 then NaN else Num (sqrt a))"
| "js_sqrt PosInf = PosInf"
| "js_sqrt _ = NaN"

fun js_square :: "jsnum \<Rightarrow> jsnum" where
  "js_square (Num a) = Num (a * a)"
| "js_square NaN = NaN"
| "js_square _ = PosInf"

text \<open>\<open>xs.reduce((a, b) => a + b, 0)\<close>.\<close>

definition js_sum :: "jsnum list \<Rightarrow> jsnum" where
  "js_sum xs = foldl js_add (Num 0) xs"

subsection \<open>JavaScript arrays\<close>

text \<open>
  \<open>xs[i]\<close> read in an arithmetic expression: past the end it is \<open>undefined\<close>, which
  arithmetic turns into \<open>NaN\<close>. \<open>xs[i] = v\<close> past the end extends the array; the
  slots it skips are holes, which read as \<open>undefined\<close> too.
\<close>

definition js_get :: "jsnum list \<Rightarrow> nat \<Rightarrow> jsnum" where
  "js_get xs i = (if i < length xs then xs ! i else NaN)"

definition js_set :: "jsnum list \<Rightarrow> nat \<Rightarrow> jsnum \<Rightarrow> jsnum list" where
  "js_set xs i v =
     (if i < length xs then xs[i := v] else xs @ replicate (i - length xs) NaN @ [v])"

text \<open>\<open>xs.indexOf(v)\<close>: the first index holding \<open>v\<close>, or \<open>-1\<close>.\<close>

fun indexOf_from :: "('a \<Rightarrow> 'a \<Rightarrow> bool) \<Rightarrow> int \<Rightarrow> 'a list \<Rightarrow> 'a \<Rightarrow> int" where
  "indexOf_from eq k [] v = - 1"
| "indexOf_from eq k (x # xs) v = (if eq x v then k else indexOf_from eq (k + 1) xs v)"

definition indexOf :: "string list \<Rightarrow> string \<Rightarrow> int" where
  "indexOf xs v = indexOf_from (=) 0 xs v"

definition js_indexOf :: "jsnum list \<Rightarrow> jsnum \<Rightarrow> int" where
  "js_indexOf xs v = indexOf_from js_eq 0 xs v"

text \<open>\<open>xs.includes(v)\<close> for a label \<open>v\<close> that may be \<open>undefined\<close>.\<close>

definition js_includes :: "string list \<Rightarrow> string option \<Rightarrow> bool" where
  "js_includes xs v = (case v of None \<Rightarrow> False | Some w \<Rightarrow> w \<in> set xs)"

text \<open>
  A string that may be absent. \<open>if (s)\<close> takes the branch when \<open>s\<close> is present and not
  the empty string.
\<close>

definition if_truthy :: "string option \<Rightarrow> (string \<Rightarrow> 'a) \<Rightarrow> 'a \<Rightarrow> 'a" where
  "if_truthy s f g = (case s of None \<Rightarrow> g | Some v \<Rightarrow> if v = [] then g else f v)"

subsection \<open>The engine's data\<close>

text \<open>\<open>this.emotions.primary\<close> and \<open>this.contextualFactors.activity\<close>.\<close>

definition emotions_primary :: "string list" where
  "emotions_primary =
     [''happy'', ''sad'', ''angry'', ''fearful'', ''surprised'', ''disgusted'', ''neutral'']"

definition contextualFactors_activity :: "string list" where
  "contextualFactors_activity =
     [''working'', ''relaxing'', ''exercising'', ''commuting'', ''socializing'', ''sleeping'']"

text \<open>
  \<open>calibrationData\<close>; its field \<open>personalityFactors\<close> is never read and is left out.
\<close>

record calibration =
  facialBias :: "jsnum list"
  voiceBias :: "jsnum list"
  adaptationRate :: jsnum

record personality =
  openness :: jsnum
  conscientiousness :: jsnum
  extraversion :: jsnum
  agreeableness :: jsnum
  neuroticism :: jsnum
  lastUpdated :: string

record user_feedback =
  correctEmotion :: "string option"

text \<open>The \<open>context\<close> argument; \<open>None\<close> is a property that is not there.\<close>

record detection_context =
  location :: "string option"
  activity :: "string option"
  feedback :: "user_feedback option"

text \<open>What \<open>new Date()\<close> gives: \<open>getHours()\<close>, \<open>getDay()\<close>, \<open>toISOString()\<close>.\<close>

record clock =
  getHours :: nat
  getDay :: nat
  toISOString :: string

text \<open>The object a \<open>process...\<close> method returns, as far as the fusion reads it.\<close>

record modality_result =
  probabilities :: "jsnum list"
  confidence :: jsnum
  modality :: string

text \<open>
  An entry of \<open>analyzeEmotionHierarchy\<close>; \<open>emotion\<close> is \<open>None\<close> where
  \<open>emotionLabels[index]\<close> is \<open>undefined\<close>.
\<close>

record ranked =
  emotion :: "string option"
  probability :: jsnum

text \<open>
  The object \<open>calculateFusionConfidence\<close> returns: its fields \<open>overall\<close>,
  \<open>modality\<close>, \<open>fusion\<close>, \<open>agreement\<close>. A record cannot reuse the field name
  \<open>modality\<close>, so two of them carry a suffix.
\<close>

record fusion_confidence =
  overall :: jsnum
  modality_confidence :: jsnum
  fusion_confidence :: jsnum
  agreement :: jsnum

text \<open>
  The object \<open>fuseEmotions\<close> returns. Its fields \<open>probabilities\<close> and \<open>confidence\<close>
  are \<open>fused_probabilities\<close> and \<open>fused_confidence\<close> here, for the same reason.
\<close>

record fusion_result =
  primaryEmotion :: ranked
  secondaryEmotions :: "ranked list"
  fused_probabilities :: "jsnum list"
  fused_confidence :: fusion_confidence
  modalityContributions :: "string \<rightharpoonup> jsnum"
  contextualFactors :: detection_context

datatype error = Error string | TypeError

text \<open>
  A classifier takes the image URI, the audio URI or the text and returns the model's
  output; the fusion predictor takes the fusion input.
\<close>

record engine =
  facialModel :: "(string \<Rightarrow> error + jsnum list) option"
  voiceModel :: "(string \<Rightarrow> error + jsnum list) option"
  textModel :: "(string \<Rightarrow> error + jsnum list) option"
  fusionModel :: "(jsnum list \<Rightarrow> error + jsnum list) option"
  isInitialized :: bool
  calibrationData :: calibration
  personalityProfile :: personality

record inputs =
  image :: "string option"
  audio :: "string option"
  text_input :: "string option"

subsection \<open>Calibration\<close>

text \<open>\<open>Math.max(0, Math.min(1, x))\<close>.\<close>

definition clamp01 :: "jsnum \<Rightarrow> jsnum" where
  "clamp01 x = js_max (Num 0) (js_min (Num 1) x)"

text \<open>
  \<open>applyCalibratedBias\<close>. \<open>calibrationData[`${modality}Bias`]\<close> exists for
  \<open>facial\<close> and \<open>voice\<close> only.
\<close>

definition applyCalibratedBias :: "calibration \<Rightarrow> jsnum list \<Rightarrow> string \<Rightarrow> jsnum list" where
  "applyCalibratedBias cal probs m =
     (let bias = (if m = ''facial'' then facialBias cal
                  else if m = ''voice'' then voiceBias cal
                  else replicate (length probs) (Num 0))
      in map (\<lambda>(i, prob). clamp01 (js_add prob (js_mul (js_get bias i) (adaptationRate cal))))
           (zip [0..<length probs] probs))"

text \<open>
  \<open>updateCalibration\<close>: \<open>result\<close> is not read. An absent \<open>feedback\<close> returns at
  once. A label that \<open>indexOf\<close> does not find changes nothing.
\<close>

definition updateCalibration :: "calibration \<Rightarrow> fusion_result \<Rightarrow> user_feedback option \<Rightarrow> calibration" where
  "updateCalibration cal result fb =
     (case fb of
        None \<Rightarrow> cal
      | Some f \<Rightarrow>
          (let learningRate = adaptationRate cal
           in if_truthy (correctEmotion f)
                (\<lambda>label.
                   (let correctIndex = indexOf emotions_primary label
                    in if correctIndex \<noteq> - 1
                       then cal\<lparr>facialBias :=
                              js_set (facialBias cal) (nat correctIndex)
                                (js_add (js_get (facialBias cal) (nat correctIndex))
                                   (js_mul learningRate (Num 0.1)))\<rparr>
                       else cal))
                cal))"

subsection \<open>Personality profile\<close>

text \<open>
  \<open>updatePersonalityProfile\<close>; \<open>context\<close> is not read. Every numeric field of the
  profile is clamped, \<open>lastUpdated\<close> is a string and is then set from the clock.
\<close>

definition updatePersonalityProfile :: "personality \<Rightarrow> fusion_result \<Rightarrow> clock \<Rightarrow> personality" where
  "updatePersonalityProfile profile result now =
     (let updateRate = Num 0.01;
          primaryEmotion = emotion (primaryEmotion result);
          p1 = (if js_includes [''happy'', ''excited''] primaryEmotion
                then profile\<lparr>extraversion := js_add (extraversion profile) updateRate\<rparr>
                else profile);
          p2 = (if js_includes [''sad'', ''angry'', ''fearful''] primaryEmotion
                then p1\<lparr>neuroticism := js_add (neuroticism p1) updateRate\<rparr>
                else p1);
          p3 = p2\<lparr>openness := clamp01 (openness p2),
                  conscientiousness := clamp01 (conscientiousness p2),
                  extraversion := clamp01 (extraversion p2),
                  agreeableness := clamp01 (agreeableness p2),
                  neuroticism := clamp01 (neuroticism p2)\<rparr>
      in p3\<lparr>lastUpdated := toISOString now\<rparr>)"

text \<open>A sequence of calls, each on the profile the call before it left.\<close>

fun updatePersonalityProfile_all :: "personality \<Rightarrow> (fusion_result \<times> clock) list \<Rightarrow> personality" where
  "updatePersonalityProfile_all profile [] = profile"
| "updatePersonalityProfile_all profile ((result, now) # calls) =
     updatePersonalityProfile_all (updatePersonalityProfile profile result now) calls"

subsection \<open>The modalities\<close>

text \<open>
  \<open>mapSentimentToEmotion\<close>: \<open>[negative, neutral, positive] = sentimentProbs\<close> reads the
  first three entries.
\<close>

definition mapSentimentToEmotion :: "jsnum list \<Rightarrow> jsnum list" where
  "mapSentimentToEmotion sentimentProbs =
     (let negative = js_get sentimentProbs 0;
          neutral = js_get sentimentProbs 1;
          positive = js_get sentimentProbs 2
      in [js_mul positive (Num 0.8),
          js_mul negative (Num 0.6),
          js_mul negative (Num 0.4),
          js_mul negative (Num 0.2),
          js_mul positive (Num 0.3),
          js_mul negative (Num 0.3),
          js_mul neutral (Num 0.9)])"

definition processFacialEmotion :: "engine \<Rightarrow> string \<Rightarrow> error + modality_result" where
  "processFacialEmotion st imageUri =
     (case facialModel st of
        None \<Rightarrow> Inl (Error ''Facial model not loaded'')
      | Some predict \<Rightarrow>
          (case predict imageUri of
             Inl e \<Rightarrow> Inl e
           | Inr probs \<Rightarrow>
               (let calibratedProbs = applyCalibratedBias (calibrationData st) probs ''facial''
                in Inr \<lparr>probabilities = calibratedProbs,
                        confidence = Math_max calibratedProbs,
                        modality = ''facial''\<rparr>)))"

definition processVoiceEmotion :: "engine \<Rightarrow> string \<Rightarrow> error + modality_result" where
  "processVoiceEmotion st audioUri =
     (case voiceModel st of
        None \<Rightarrow> Inl (Error ''Voice model not loaded'')
      | Some predict \<Rightarrow>
          (case predict audioUri of
             Inl e \<Rightarrow> Inl e
           | Inr probs \<Rightarrow>
               (let calibratedProbs = applyCalibratedBias (calibrationData st) probs ''voice''
                in Inr \<lparr>probabilities = calibratedProbs,
                        confidence = Math_max calibratedProbs,
                        modality = ''voice''\<rparr>)))"

definition processTextSentiment :: "engine \<Rightarrow> string \<Rightarrow> error + modality_result" where
  "processTextSentiment st txt =
     (case textModel st of
        None \<Rightarrow> Inl (Error ''Text model not loaded'')
      | Some predict \<Rightarrow>
          (case predict txt of
             Inl e \<Rightarrow> Inl e
           | Inr probs \<Rightarrow>
               (let emotionProbs = mapSentimentToEmotion probs
                in Inr \<lparr>probabilities = emotionProbs,
                        confidence = Math_max emotionProbs,
                        modality = ''text''\<rparr>)))"

subsection \<open>Fusion\<close>

definition encodeContext :: "detection_context \<Rightarrow> clock \<Rightarrow> jsnum list" where
  "encodeContext ctx now =
     (let encoded = replicate 20 (Num 0);
          encoded = js_set encoded 0 (js_div (Num (real (getHours now))) (Num 24));
          encoded = js_set encoded 1 (js_div (Num (real (getDay now))) (Num 7));
          encoded = if_truthy (location ctx)
                      (\<lambda>l. js_set (js_set encoded 2 (if l = ''home'' then Num 1 else Num 0))
                             3 (if l = ''work'' then Num 1 else Num 0))
                      encoded;
          encoded = if_truthy (activity ctx)
                      (\<lambda>a. (let activityIndex = indexOf contextualFactors_activity a
                             in if activityIndex \<noteq> - 1
                                then js_set encoded (4 + nat activityIndex) (Num 1)
                                else encoded))
                      encoded
      in encoded)"

text \<open>
  \<open>prepareFusionInput\<close>. \<open>Object.values(this.personalityProfile).slice(0, 5)\<close> are the
  five traits, the first five properties of the profile.
\<close>

definition prepareFusionInput ::
  "personality \<Rightarrow> clock \<Rightarrow> modality_result list \<Rightarrow> detection_context \<Rightarrow> jsnum list" where
  "prepareFusionInput profile now modalityResults ctx =
     concat (map probabilities modalityResults)
     @ encodeContext ctx now
     @ [openness profile, conscientiousness profile, extraversion profile,
        agreeableness profile, neuroticism profile]"

text \<open>
  \<open>applyPersonalityAdjustment\<close>, in its two steps: the four in-place products on the
  copy \<open>adjusted\<close>, then the division by the sum.
\<close>

definition adjustedProbabilities :: "personality \<Rightarrow> jsnum list \<Rightarrow> jsnum list" where
  "adjustedProbabilities profile probs =
     (let adjusted = probs;
          adjusted = js_set adjusted 0
            (js_mul (js_get adjusted 0) (js_add (Num 1) (js_mul (extraversion profile) (Num 0.2))));
          adjusted = js_set adjusted 1
            (js_mul (js_get adjusted 1) (js_add (Num 1) (js_mul (neuroticism profile) (Num 0.3))));
          adjusted = js_set adjusted 2
            (js_mul (js_get adjusted 2) (js_add (Num 1) (js_mul (neuroticism profile) (Num 0.2))));
          adjusted = js_set adjusted 3
            (js_mul (js_get adjusted 3) (js_add (Num 1) (js_mul (neuroticism profile) (Num 0.4))))
      in adjusted)"

definition applyPersonalityAdjustment :: "personality \<Rightarrow> jsnum list \<Rightarrow> jsnum list" where
  "applyPersonalityAdjustment profile probs =
     (let adjusted = adjustedProbabilities profile probs;
          sum = js_sum adjusted
      in map (\<lambda>p. js_div p sum) adjusted)"

text \<open>
  \<open>calculateModalityAgreement\<close>. \<open>predictions\<close> holds, for each result, the index of
  the first entry equal to the maximum of its probabilities (\<open>-1\<close> when there is none).
  The two \<open>for\<close> loops carry \<open>(agreements, comparisons)\<close>.
\<close>

definition maxIndex :: "modality_result \<Rightarrow> int" where
  "maxIndex r = js_indexOf (probabilities r) (Math_max (probabilities r))"

definition predictions :: "modality_result list \<Rightarrow> int list" where
  "predictions modalityResults = map maxIndex modalityResults"

function agreement_inner :: "int list \<Rightarrow> nat \<Rightarrow> nat \<Rightarrow> nat \<times> nat \<Rightarrow> nat \<times> nat" where
  "agreement_inner ps i j (agreements, comparisons) =
     (if j < length ps
      then agreement_inner ps i (j + 1)
             (if ps ! i = ps ! j then agreements + 1 else agreements, comparisons + 1)
      else (agreements, comparisons))"
  by pat_completeness auto
termination
  by (relation "measure (\<lambda>(ps, i, j, ac). length ps - j)") auto

function agreement_outer :: "int list \<Rightarrow> nat \<Rightarrow> nat \<times> nat \<Rightarrow> nat \<times> nat" where
  "agreement_outer ps i ac =
     (if i < length ps
      then agreement_outer ps (i + 1) (agreement_inner ps i (i + 1) ac)
      else ac)"
  by pat_completeness auto
termination
  by (relation "measure (\<lambda>(ps, i, ac). length ps - i)") auto

declare agreement_inner.simps [simp del] agreement_outer.simps [simp del]

definition calculateModalityAgreement :: "modality_result list \<Rightarrow> jsnum" where
  "calculateModalityAgreement modalityResults =
     (if length modalityResults < 2 then Num 1
      else (case agreement_outer (predictions modalityResults) 0 (0, 0) of
              (agreements, comparisons) \<Rightarrow>
                if comparisons > 0
                then js_div (Num (real agreements)) (Num (real comparisons))
                else Num 1))"

definition calculateFusionConfidence :: "modality_result list \<Rightarrow> jsnum list \<Rightarrow> fusion_confidence" where
  "calculateFusionConfidence modalityResults finalProbs =
     (let modalityConfidences = map confidence modalityResults;
          avgModalityConfidence =
            js_div (js_sum modalityConfidences) (Num (real (length modalityConfidences)));
          finalConfidence = Math_max finalProbs;
          agreement = calculateModalityAgreement modalityResults
      in \<lparr>overall = js_div (js_add (js_add avgModalityConfidence finalConfidence) agreement) (Num 3),
          modality_confidence = avgModalityConfidence,
          fusion_confidence = finalConfidence,
          agreement = agreement\<rparr>)"

text \<open>
  \<open>analyzeEmotionHierarchy\<close>. \<open>indexed.sort((a, b) => b.probability - a.probability)\<close>
  is a stable sort: \<open>b\<close> goes before an earlier \<open>a\<close> only when the difference is
  positive. Where a difference is \<open>NaN\<close> the comparator is not consistent and the
  language leaves the order to the implementation; the model then gives the order of an
  insertion sort.
\<close>

fun insert_ranked :: "ranked \<Rightarrow> ranked list \<Rightarrow> ranked list" where
  "insert_ranked a [] = [a]"
| "insert_ranked a (b # bs) =
     (if js_gt (js_sub (probability b) (probability a)) (Num 0)
      then b # insert_ranked a bs
      else a # b # bs)"

definition sort_ranked :: "ranked list \<Rightarrow> ranked list" where
  "sort_ranked xs = foldr insert_ranked xs []"

record hierarchy =
  primary :: "ranked option"
  secondary :: "ranked list"
  all_ranked :: "ranked list"

definition analyzeEmotionHierarchy :: "jsnum list \<Rightarrow> hierarchy" where
  "analyzeEmotionHierarchy probs =
     (let emotionLabels = emotions_primary;
          indexed = map (\<lambda>(index, prob).
                      \<lparr>emotion = (if index < length emotionLabels
                                  then Some (emotionLabels ! index) else None),
                       probability = prob\<rparr>)
                    (zip [0..<length probs] probs);
          indexed = sort_ranked indexed
      in \<lparr>primary = (case indexed of [] \<Rightarrow> None | x # _ \<Rightarrow> Some x),
          secondary = take 2 (drop 1 indexed),
          all_ranked = indexed\<rparr>)"

definition calculateModalityContributions :: "modality_result list \<Rightarrow> (string \<rightharpoonup> jsnum)" where
  "calculateModalityContributions modalityResults =
     (let totalConfidence = js_sum (map confidence modalityResults)
      in fold (\<lambda>result contributions.
                 contributions(modality result \<mapsto> js_div (confidence result) totalConfidence))
           modalityResults Map.empty)"

text \<open>
  \<open>fuseEmotions\<close>. \<open>emotionAnalysis.primary\<close> is \<open>indexed[0]\<close>; the adjusted vector
  has at least four entries, so the entry is there, and the last branch is never taken
  (lemma \<open>analyzeEmotionHierarchy_primary\<close>).
\<close>

definition fuseEmotions ::
  "engine \<Rightarrow> clock \<Rightarrow> modality_result list \<Rightarrow> detection_context \<Rightarrow> error + fusion_result" where
  "fuseEmotions st now modalityResults ctx =
     (case fusionModel st of
        None \<Rightarrow> Inl (Error ''Fusion model not loaded'')
      | Some predict \<Rightarrow>
          (let fusionInput = prepareFusionInput (personalityProfile st) now modalityResults ctx
           in case predict fusionInput of
                Inl e \<Rightarrow> Inl e
              | Inr finalProbabilities \<Rightarrow>
                  (let personalityAdjusted =
                         applyPersonalityAdjustment (personalityProfile st) finalProbabilities;
                       conf = calculateFusionConfidence modalityResults personalityAdjusted;
                       emotionAnalysis = analyzeEmotionHierarchy personalityAdjusted
                   in case primary emotionAnalysis of
                        Some p \<Rightarrow>
                          Inr \<lparr>primaryEmotion = p,
                               secondaryEmotions = secondary emotionAnalysis,
                               fused_probabilities = personalityAdjusted,
                               fused_confidence = conf,
                               modalityContributions =
                                 calculateModalityContributions modalityResults,
                               contextualFactors = ctx\<rparr>
                      | None \<Rightarrow> Inl TypeError)))"

text \<open>
  \<open>detectEmotion\<close>. \<open>initialize\<close> loads the models and the two profiles from the
  network and the file system; it is a parameter, and returns the error it raised, if
  any, with the engine it left. The modalities are processed in the order image, audio,
  text, and the first error ends the request.
\<close>

definition push_result ::
  "error + modality_result list \<Rightarrow> string option \<Rightarrow> (string \<Rightarrow> error + modality_result)
     \<Rightarrow> error + modality_result list" where
  "push_result acc input process =
     (case acc of
        Inl e \<Rightarrow> Inl e
      | Inr modalityResults \<Rightarrow>
          if_truthy input
            (\<lambda>v. case process v of
                    Inl e \<Rightarrow> Inl e
                  | Inr r \<Rightarrow> Inr (modalityResults @ [r]))
            (Inr modalityResults))"

definition detectEmotion ::
  "(engine \<Rightarrow> error option \<times> engine) \<Rightarrow> clock \<Rightarrow> engine \<Rightarrow> inputs \<Rightarrow> detection_context
     \<Rightarrow> (error + fusion_result) \<times> engine" where
  "detectEmotion initialize now st0 ins ctx =
     (case (if isInitialized st0 then (None, st0) else initialize st0) of
        (Some e, st) \<Rightarrow> (Inl e, st)
      | (None, st) \<Rightarrow>
          (let r1 = push_result (Inr []) (image ins) (processFacialEmotion st);
               r2 = push_result r1 (audio ins) (processVoiceEmotion st);
               r3 = push_result r2 (text_input ins) (processTextSentiment st)
           in case r3 of
                Inl e \<Rightarrow> (Inl e, st)
              | Inr modalityResults \<Rightarrow>
                  (case fuseEmotions st now modalityResults ctx of
                     Inl e \<Rightarrow> (Inl e, st)
                   | Inr fusedResult \<Rightarrow>
                       (let st = st\<lparr>calibrationData :=
                                   updateCalibration (calibrationData st) fusedResult (feedback ctx)\<rparr>;
                            st = st\<lparr>personalityProfile :=
                                   updatePersonalityProfile (personalityProfile st) fusedResult now\<rparr>
                        in (Inr fusedResult, st)))))"

subsection \<open>Insights\<close>

text \<open>
  The class calls eight methods that no file defines. A call of \<open>this.m(...)\<close> for an
  undefined \<open>m\<close> raises a \<open>TypeError\<close> once its arguments are evaluated, and the
  arguments here are all free of effects. Each of the eight is therefore the function that
  raises; what it would return is of no interest and has type \<open>unit\<close>.
\<close>

definition findDailyPatterns :: "fusion_result list \<Rightarrow> error + unit" where
  "findDailyPatterns historicalData = Inl TypeError"

definition findWeeklyPatterns :: "fusion_result list \<Rightarrow> error + unit" where
  "findWeeklyPatterns historicalData = Inl TypeError"

definition findContextualTriggers :: "fusion_result list \<Rightarrow> error + unit" where
  "findContextualTriggers historicalData = Inl TypeError"

definition identifyWellnessFactors :: "fusion_result \<Rightarrow> fusion_result list \<Rightarrow> error + unit" where
  "identifyWellnessFactors result historicalData = Inl TypeError"

definition getWellnessSuggestions :: "jsnum \<Rightarrow> string option \<Rightarrow> error + unit" where
  "getWellnessSuggestions wellnessScore currentEmotion = Inl TypeError"

definition getGenresForEmotion :: "string option \<Rightarrow> error + unit" where
  "getGenresForEmotion e = Inl TypeError"

definition getEnergyForStrategy :: "string \<Rightarrow> error + unit" where
  "getEnergyForStrategy s = Inl TypeError"

definition getValenceForStrategy :: "string \<Rightarrow> error + unit" where
  "getValenceForStrategy s = Inl TypeError"

record current_emotion =
  dominantEmotion :: ranked
  intensity :: jsnum
  stability :: jsnum
  complexity :: nat
  authenticity :: jsnum

record emotional_patterns =
  dailyPatterns :: unit
  weeklyPatterns :: unit
  contextualTriggers :: unit

record trends =
  mostFrequent :: string
  diversity :: nat
  trend_stability :: jsnum
  patterns :: emotional_patterns

record music_recommendation =
  strategy :: string
  genres :: unit
  energy :: unit
  valence :: unit

record lighting =
  brightness :: nat
  warmth :: string
  color :: string

datatype recommended_action =
  Music music_recommendation | Environment lighting | Activity "string list"

text \<open>An entry of \<open>recommendations\<close>; its property \<open>type\<close> is \<open>rec_type\<close> here.\<close>

record recommendation =
  rec_type :: string
  action :: recommended_action
  priority :: string

record wellness =
  score :: jsnum
  level :: string
  factors :: unit
  suggestions :: unit

record insights =
  current :: current_emotion
  trends :: "trends option"
  recommendations :: "recommendation list"
  wellness :: wellness

definition assessAuthenticity :: "fusion_result \<Rightarrow> jsnum" where
  "assessAuthenticity result =
     (let modalityAgreement = agreement (fused_confidence result);
          overallConfidence = overall (fused_confidence result)
      in js_div (js_add modalityAgreement overallConfidence) (Num 2))"

definition analyzeCurrentEmotion :: "fusion_result \<Rightarrow> current_emotion" where
  "analyzeCurrentEmotion result =
     \<lparr>dominantEmotion = primaryEmotion result,
      intensity = overall (fused_confidence result),
      stability = agreement (fused_confidence result),
      complexity = length (secondaryEmotions result),
      authenticity = assessAuthenticity result\<rparr>"

definition calculateEmotionalStability :: "fusion_result list \<Rightarrow> jsnum" where
  "calculateEmotionalStability emotionData =
     (if length emotionData < 2 then Num 1
      else (let confidences = map (\<lambda>d. overall (fused_confidence d)) emotionData;
                mean = js_div (js_sum confidences) (Num (real (length confidences)));
                variance =
                  js_div (foldl (\<lambda>sum conf. js_add sum (js_square (js_sub conf mean)))
                            (Num 0) confidences)
                    (Num (real (length confidences)))
            in js_sub (Num 1) (js_sqrt variance)))"

text \<open>
  \<open>identifyPatterns\<close>: the three properties of the object are evaluated in order, and
  the first call raises.
\<close>

definition identifyPatterns :: "fusion_result list \<Rightarrow> error + emotional_patterns" where
  "identifyPatterns historicalData =
     (case findDailyPatterns historicalData of
        Inl e \<Rightarrow> Inl e
      | Inr daily \<Rightarrow>
          (case findWeeklyPatterns historicalData of
             Inl e \<Rightarrow> Inl e
           | Inr weekly \<Rightarrow>
               (case findContextualTriggers historicalData of
                  Inl e \<Rightarrow> Inl e
                | Inr triggers \<Rightarrow>
                    Inr \<lparr>dailyPatterns = daily, weeklyPatterns = weekly,
                         contextualTriggers = triggers\<rparr>)))"

text \<open>
  \<open>emotionCounts\<close>, \<open>strategies\<close>, \<open>lightingMap\<close> and \<open>activityMap\<close> are objects
  used as dictionaries. A label used as a key is taken not to be an array index, for
  which \<open>Object.keys\<close> would change the order, nor the name of a property that every
  object inherits. The keys of \<open>emotionCounts\<close> are kept in the order of their first
  insertion. An \<open>undefined\<close> label is the key \<open>"undefined"\<close>.
\<close>

definition label_key :: "string option \<Rightarrow> string" where
  "label_key e = (case e of None \<Rightarrow> ''undefined'' | Some s \<Rightarrow> s)"

fun count_emotion :: "string \<Rightarrow> (string \<times> nat) list \<Rightarrow> (string \<times> nat) list" where
  "count_emotion e [] = [(e, 1)]"
| "count_emotion e ((k, n) # kvs) =
     (if k = e then (k, n + 1) # kvs else (k, n) # count_emotion e kvs)"

definition count_of :: "(string \<times> nat) list \<Rightarrow> string \<Rightarrow> nat" where
  "count_of kvs k = (case map_of kvs k of None \<Rightarrow> 0 | Some n \<Rightarrow> n)"

text \<open>
  \<open>analyzeTrends\<close>: \<open>null\<close> (\<open>None\<close>) for fewer than two entries. Otherwise the
  properties of the object are evaluated in order: \<open>reduce\<close> without an initial value
  raises a \<open>TypeError\<close> on no key at all, \<open>diversity\<close> and \<open>stability\<close> cannot raise,
  and \<open>identifyPatterns\<close> comes last.
\<close>

definition analyzeTrends :: "fusion_result list \<Rightarrow> error + trends option" where
  "analyzeTrends historicalData =
     (if length historicalData < 2 then Inr None
      else (let recentEmotions = drop (length historicalData - 10) historicalData;
                emotionCounts =
                  foldl (\<lambda>counts d. count_emotion (label_key (emotion (primaryEmotion d))) counts)
                    [] recentEmotions
            in case map fst emotionCounts of
                 [] \<Rightarrow> Inl TypeError
               | k # ks \<Rightarrow>
                   (case identifyPatterns historicalData of
                      Inl e \<Rightarrow> Inl e
                    | Inr pats \<Rightarrow>
                        Inr (Some
                          \<lparr>mostFrequent =
                             foldl (\<lambda>a b. if count_of emotionCounts a > count_of emotionCounts b
                                           then a else b) k ks,
                           diversity = length (map fst emotionCounts),
                           trend_stability = calculateEmotionalStability recentEmotions,
                           patterns = pats\<rparr>))))"

text \<open>
  \<open>getMusicRecommendation\<close>: \<open>strategy\<close> is evaluated first, then the calls for
  \<open>genres\<close>, \<open>energy\<close> and \<open>valence\<close>, in this order.
\<close>

definition strategies :: "jsnum \<Rightarrow> (string \<times> string) list" where
  "strategies conf =
     [(''sad'', if js_gt conf (Num 0.7) then ''uplift'' else ''match''),
      (''angry'', ''release''),
      (''happy'', ''enhance''),
      (''calm'', ''maintain''),
      (''anxious'', ''soothe'')]"

definition getMusicRecommendation :: "string option \<Rightarrow> jsnum \<Rightarrow> error + music_recommendation" where
  "getMusicRecommendation e conf =
     (let chosen = (case map_of (strategies conf) (label_key e) of
                      None \<Rightarrow> ''match'' | Some s \<Rightarrow> s)
      in case getGenresForEmotion e of
           Inl err \<Rightarrow> Inl err
         | Inr g \<Rightarrow>
             (case getEnergyForStrategy chosen of
                Inl err \<Rightarrow> Inl err
              | Inr en \<Rightarrow>
                  (case getValenceForStrategy chosen of
                     Inl err \<Rightarrow> Inl err
                   | Inr v \<Rightarrow>
                       Inr \<lparr>strategy = chosen, genres = g, energy = en, valence = v\<rparr>)))"

definition lightingMap :: "(string \<times> lighting) list" where
  "lightingMap =
     [(''happy'', \<lparr>brightness = 80, warmth = ''warm'', color = ''yellow''\<rparr>),
      (''sad'', \<lparr>brightness = 40, warmth = ''warm'', color = ''blue''\<rparr>),
      (''angry'', \<lparr>brightness = 60, warmth = ''cool'', color = ''red''\<rparr>),
      (''calm'', \<lparr>brightness = 30, warmth = ''warm'', color = ''green''\<rparr>)]"

definition getEnvironmentRecommendation :: "string option \<Rightarrow> jsnum \<Rightarrow> lighting" where
  "getEnvironmentRecommendation e conf =
     (case map_of lightingMap (label_key e) of
        None \<Rightarrow> \<lparr>brightness = 50, warmth = ''neutral'', color = ''white''\<rparr>
      | Some l \<Rightarrow> l)"

definition activityMap :: "(string \<times> string list) list" where
  "activityMap =
     [(''sad'', [''listen to music'', ''call a friend'', ''take a walk'']),
      (''angry'', [''exercise'', ''deep breathing'', ''journaling'']),
      (''happy'', [''share with others'', ''creative activity'', ''outdoor activity'']),
      (''anxious'', [''meditation'', ''gentle exercise'', ''organize space''])]"

definition getActivityRecommendation :: "string option \<Rightarrow> fusion_result list \<Rightarrow> string list" where
  "getActivityRecommendation e historicalData =
     (case map_of activityMap (label_key e) of
        None \<Rightarrow> [''take a break'', ''reflect'', ''hydrate'']
      | Some a \<Rightarrow> a)"

text \<open>\<open>generateRecommendations\<close>: the three entries are pushed in order.\<close>

definition generateRecommendations ::
  "fusion_result \<Rightarrow> fusion_result list \<Rightarrow> error + recommendation list" where
  "generateRecommendations result historicalData =
     (let e = emotion (primaryEmotion result);
          conf = overall (fused_confidence result)
      in case getMusicRecommendation e conf of
           Inl err \<Rightarrow> Inl err
         | Inr m \<Rightarrow>
             Inr [\<lparr>rec_type = ''music'', action = Music m, priority = ''high''\<rparr>,
                  \<lparr>rec_type = ''environment'',
                   action = Environment (getEnvironmentRecommendation e conf),
                   priority = ''medium''\<rparr>,
                  \<lparr>rec_type = ''activity'',
                   action = Activity (getActivityRecommendation e historicalData),
                   priority = ''low''\<rparr>])"

text \<open>
  \<open>assessWellness\<close>, in the order it runs. \<open>wellnessScore\<close> is the value of the local
  variable of that name when the result object is built (lines 817 to 835);
  \<open>historicalData.slice(-5)\<close> are the last five entries, or all of them when there are
  fewer. \<open>wellnessLevel\<close> is the expression of the property \<open>level\<close>. The object is
  built property by property: \<open>score\<close>, \<open>level\<close>, then the two calls for \<open>factors\<close>
  and \<open>suggestions\<close>.
\<close>

definition wellnessScore :: "fusion_result \<Rightarrow> fusion_result list \<Rightarrow> jsnum" where
  "wellnessScore result historicalData =
     (let positiveEmotions = [''happy'', ''excited'', ''content'', ''calm''];
          currentEmotion = emotion (primaryEmotion result);
          isPositive = js_includes positiveEmotions currentEmotion;
          wellnessScore = (if isPositive then Num 0.7 else Num 0.3);
          wellnessScore = js_mul wellnessScore (overall (fused_confidence result));
          wellnessScore =
            (if length historicalData > 0
             then (let recentPositive =
                         length (filter (\<lambda>d. js_includes positiveEmotions (emotion (primaryEmotion d)))
                                   (drop (length historicalData - 5) historicalData))
                   in js_div (js_add wellnessScore (js_div (Num (real recentPositive)) (Num 5)))
                        (Num 2))
             else wellnessScore)
      in wellnessScore)"

definition wellnessLevel :: "jsnum \<Rightarrow> string" where
  "wellnessLevel s =
     (if js_gt s (Num 0.7) then ''high'' else if js_gt s (Num 0.4) then ''medium'' else ''low'')"

definition assessWellness :: "fusion_result \<Rightarrow> fusion_result list \<Rightarrow> error + wellness" where
  "assessWellness result historicalData =
     (let currentEmotion = emotion (primaryEmotion result);
          s = wellnessScore result historicalData;
          l = wellnessLevel s
      in case identifyWellnessFactors result historicalData of
           Inl e \<Rightarrow> Inl e
         | Inr f \<Rightarrow>
             (case getWellnessSuggestions s currentEmotion of
                Inl e \<Rightarrow> Inl e
              | Inr sug \<Rightarrow> Inr \<lparr>score = s, level = l, factors = f, suggestions = sug\<rparr>))"

text \<open>
  \<open>getEmotionInsights\<close>: \<open>current\<close>, \<open>trends\<close>, \<open>recommendations\<close> and \<open>wellness\<close>
  are evaluated in this order, and the first error ends the call.
\<close>

definition getEmotionInsights :: "fusion_result \<Rightarrow> fusion_result list \<Rightarrow> error + insights" where
  "getEmotionInsights result historicalData =
     (let cur = analyzeCurrentEmotion result
      in case analyzeTrends historicalData of
           Inl e \<Rightarrow> Inl e
         | Inr t \<Rightarrow>
             (case generateRecommendations result historicalData of
                Inl e \<Rightarrow> Inl e
              | Inr recs \<Rightarrow>
                  (case assessWellness result historicalData of
                     Inl e \<Rightarrow> Inl e
                   | Inr w \<Rightarrow>
                       Inr \<lparr>current = cur, trends = t, recommendations = recs,
                            wellness = w\<rparr>)))"

subsection \<open>Notions used to state the properties\<close>

text \<open>A trait value that is a finite number of the interval \<open>[0, 1]\<close>.\<close>

fun in_unit :: "jsnum \<Rightarrow> bool" where
  "in_unit (Num a) = (0 \<le> a \<and> a \<le> 1)"
| "in_unit _ = False"

definition traits_in_unit :: "personality \<Rightarrow> bool" where
  "traits_in_unit p =
     (in_unit (openness p) \<and> in_unit (conscientiousness p) \<and> in_unit (extraversion p)
      \<and> in_unit (agreeableness p) \<and> in_unit (neuroticism p))"

text \<open>An input that \<open>if (s)\<close> skips: absent, or the empty string.\<close>

definition falsy :: "string option \<Rightarrow> bool" where
  "falsy s = (s = None \<or> s = Some [])"

text \<open>
  The argmax of a vector of reals: \<open>i\<close> is the first position of a largest entry.
  \<open>finite_values\<close> reads the reals off a vector of finite numbers.
\<close>

definition is_argmax :: "real list \<Rightarrow> nat \<Rightarrow> bool" where
  "is_argmax xs i =
     (i < length xs \<and> (\<forall>j < length xs. xs ! j \<le> xs ! i) \<and> (\<forall>j < i. xs ! j < xs ! i))"

definition finite_values :: "jsnum list \<Rightarrow> real list" where
  "finite_values ps = map (\<lambda>p. case p of Num a \<Rightarrow> a | _ \<Rightarrow> 0) ps"

text \<open>
  The unordered pairs of positions \<open>k < l\<close> below \<open>n\<close> with \<open>i \<le> k\<close>, and those of
  them on which the list \<open>ps\<close> agrees.
\<close>

definition pairs_from :: "nat \<Rightarrow> nat \<Rightarrow> (nat \<times> nat) set" where
  "pairs_from n i = {(k, l). i \<le> k \<and> k < l \<and> l < n}"

definition matching_from :: "int list \<Rightarrow> nat \<Rightarrow> (nat \<times> nat) set" where
  "matching_from ps i = {(k, l). i \<le> k \<and> k < l \<and> l < length ps \<and> ps ! k = ps ! l}"

text \<open>
  The factor the specification gives each label (section 4.5): \<open>happy\<close> is multiplied
  by \<open>1 + extraversion * 0.2\<close>, \<open>sad\<close> by \<open>1 + neuroticism * 0.3\<close>, \<open>angry\<close> by
  \<open>1 + neuroticism * 0.2\<close>, \<open>fearful\<close> by \<open>1 + neuroticism * 0.4\<close>, and every other
  label passes through unchanged.
\<close>

definition spec_factor :: "real \<Rightarrow> real \<Rightarrow> string \<Rightarrow> real" where
  "spec_factor e n label =
     (if label = ''happy'' then 1 + e * 0.2
      else if label = ''sad'' then 1 + n * 0.3
      else if label = ''angry'' then 1 + n * 0.2
      else if label = ''fearful'' then 1 + n * 0.4
      else 1)"




subsection \<open>Concrete engines and requests\<close>

text \<open>
  The calibration and the profile that \<open>loadCalibrationData\<close> and
  \<open>initializePersonalityProfiling\<close> create when no file exists.
\<close>

definition default_calibration :: calibration where
  "default_calibration =
     \<lparr>facialBias = replicate 7 (Num 0), voiceBias = replicate 7 (Num 0),
      adaptationRate = Num 0.1\<rparr>"

definition neutral_profile :: personality where
  "neutral_profile =
     \<lparr>openness = Num 0.5, conscientiousness = Num 0.5, extraversion = Num 0.5,
      agreeableness = Num 0.5, neuroticism = Num 0.5,
      lastUpdated = ''2024-01-01T00:00:00.000Z''\<rparr>"

text \<open>
  An initialized engine that holds a fusion model only; the model answers every input
  with the vector \<open>out\<close>.
\<close>

definition fusion_only_engine :: "jsnum list \<Rightarrow> engine" where
  "fusion_only_engine out =
     \<lparr>facialModel = None, voiceModel = None, textModel = None,
      fusionModel = Some (\<lambda>fusionInput. Inr out),
      isInitialized = True,
      calibrationData = default_calibration,
      personalityProfile = neutral_profile\<rparr>"

definition noon :: clock where
  "noon = \<lparr>getHours = 12, getDay = 3, toISOString = ''2024-01-03T12:00:00.000Z''\<rparr>"

definition no_context :: detection_context where
  "no_context = \<lparr>location = None, activity = None, feedback = None\<rparr>"

definition no_inputs :: inputs where
  "no_inputs = \<lparr>image = None, audio = None, text_input = None\<rparr>"

definition mostly_sad :: "jsnum list" where
  "mostly_sad = [Num 0.1, Num 0.6, Num 0.1, Num 0.05, Num 0.05, Num 0.05, Num 0.05]"

text \<open>A fusion result with the given primary label and overall confidence.\<close>

definition result_of :: "string \<Rightarrow> jsnum \<Rightarrow> fusion_result" where
  "result_of label c =
     \<lparr>primaryEmotion = \<lparr>emotion = Some label, probability = Num 0.6\<rparr>,
      secondaryEmotions = [],
      fused_probabilities = [],
      fused_confidence =
        \<lparr>overall = c, modality_confidence = c, fusion_confidence = c, agreement = Num 1\<rparr>,
      modalityContributions = Map.empty,
      contextualFactors = no_context\<rparr>"

text \<open>A modality result with the given probabilities.\<close>

definition observation :: "string \<Rightarrow> jsnum list \<Rightarrow> modality_result" where
  "observation m probs = \<lparr>probabilities = probs, confidence = Math_max probs, modality = m\<rparr>"

text \<open>
  An engine whose facial and voice classifiers both answer \<open>raw_happy\<close>, whose largest
  entry is \<open>happy\<close>, and whose facial bias for \<open>sad\<close> has grown to \<open>3\<close>.
\<close>

definition raw_happy :: "real list" where
  "raw_happy = [0.5, 0.4, 0.02, 0.02, 0.02, 0.02, 0.02]"

definition biased_engine :: engine where
  "biased_engine =
     \<lparr>facialModel = Some (\<lambda>imageUri. Inr (map Num raw_happy)),
      voiceModel = Some (\<lambda>audioUri. Inr (map Num raw_happy)),
      textModel = None,
      fusionModel = Some (\<lambda>fusionInput. Inr mostly_sad),
      isInitialized = True,
      calibrationData =
        \<lparr>facialBias = [Num 0, Num 3, Num 0, Num 0, Num 0, Num 0, Num 0],
         voiceBias = replicate 7 (Num 0),
         adaptationRate = Num 0.1\<rparr>,
      personalityProfile = neutral_profile\<rparr>"

definition face_and_voice :: inputs where
  "face_and_voice = \<lparr>image = Some ''face.jpg'', audio = Some ''voice.wav'', text_input = None\<rparr>"

text \<open>Two observations whose largest entry is \<open>happy\<close>, and one where it is \<open>sad\<close>.\<close>

definition facial_happy :: modality_result where
  "facial_happy =
     observation ''facial'' [Num 0.7, Num 0.1, Num 0.05, Num 0.05, Num 0.05, Num 0.025, Num 0.025]"

definition voice_happy :: modality_result where
  "voice_happy =
     observation ''voice'' [Num 0.5, Num 0.2, Num 0.1, Num 0.05, Num 0.05, Num 0.05, Num 0.05]"

definition text_sad :: modality_result where
  "text_sad = observation ''text'' mostly_sad"

section \<open>Properties\<close>

subsection \<open>JavaScript numbers and arrays\<close>

lemma clamp01_Num: "clamp01 (Num a) = Num (max 0 (min 1 a))"
  by (simp add: clamp01_def js_max_def js_min_def max_def min_def)

lemma clamp01_in_unit: "in_unit x \<Longrightarrow> clamp01 x = x"
  by (cases x) (simp_all add: clamp01_Num)

lemma in_unit_clamp01_add: "in_unit x \<Longrightarrow> in_unit (clamp01 (js_add x (Num d)))"
  by (cases x) (simp_all add: clamp01_Num)

lemma js_get_js_set_same: "js_get (js_set xs i v) i = v"
  by (simp add: js_get_def js_set_def nth_append)

lemma js_get_js_set_other: "j \<noteq> i \<Longrightarrow> js_get (js_set xs i v) j = js_get xs j"
  by (auto simp add: js_get_def js_set_def nth_append)

lemma indexOf_from_nth:
  "distinct xs \<Longrightarrow> i < length xs \<Longrightarrow> indexOf_from (=) k xs (xs ! i) = k + int i"
proof (induction xs arbitrary: i k)
  case Nil
  then show ?case by simp
next
  case (Cons x xs)
  show ?case
  proof (cases i)
    case 0
    then show ?thesis by simp
  next
    case (Suc m)
    with Cons.prems have "xs ! m \<noteq> x" by auto
    with Cons Suc show ?thesis by auto
  qed
qed

lemma indexOf_from_absent: "v \<notin> set xs \<Longrightarrow> indexOf_from (=) k xs v = - 1"
  by (induction xs arbitrary: k) auto

lemma indexOf_primary: "i < 7 \<Longrightarrow> indexOf emotions_primary (emotions_primary ! i) = int i"
  unfolding indexOf_def
  by (subst indexOf_from_nth) (simp_all add: emotions_primary_def)

lemma primary_label_nonempty: "i < 7 \<Longrightarrow> emotions_primary ! i \<noteq> []"
proof -
  assume "i < 7"
  moreover have "length emotions_primary = 7"
    by (simp add: emotions_primary_def)
  ultimately have "emotions_primary ! i \<in> set emotions_primary"
    by (intro nth_mem) simp
  moreover have "\<forall>l \<in> set emotions_primary. l \<noteq> []"
    by (simp add: emotions_primary_def)
  ultimately show ?thesis by blast
qed

subsection \<open>Calibration feedback\<close>

text \<open>
  C2, as amended. The feedback names a label and no modality. For the label at index
  \<open>i\<close> of \<open>emotions.primary\<close>, \<open>updateCalibration\<close> adds \<open>adaptationRate * 0.1\<close> to
  entry \<open>i\<close> of \<open>facialBias\<close>; every other entry of \<open>facialBias\<close>, the whole of
  \<open>voiceBias\<close> and \<open>adaptationRate\<close> are as before.
\<close>

theorem updateCalibration_facial_entry:
  assumes "i < 7" and "correctEmotion fb = Some (emotions_primary ! i)"
  shows "js_get (facialBias (updateCalibration cal r (Some fb))) i
           = js_add (js_get (facialBias cal) i) (js_mul (adaptationRate cal) (Num 0.1))
       \<and> (\<forall>j. j \<noteq> i \<longrightarrow> js_get (facialBias (updateCalibration cal r (Some fb))) j
                          = js_get (facialBias cal) j)
       \<and> voiceBias (updateCalibration cal r (Some fb)) = voiceBias cal
       \<and> adaptationRate (updateCalibration cal r (Some fb)) = adaptationRate cal"
  using assms
  by (simp add: updateCalibration_def if_truthy_def primary_label_nonempty indexOf_primary
      Let_def js_get_js_set_same js_get_js_set_other)

theorem updateCalibration_facial_entry_witness:
  "(1::nat) < 7
   \<and> correctEmotion \<lparr>correctEmotion = Some ''sad''\<rparr> = Some (emotions_primary ! 1)
   \<and> js_get (facialBias (updateCalibration default_calibration (result_of ''sad'' (Num 0.9))
                (Some \<lparr>correctEmotion = Some ''sad''\<rparr>))) 1 = Num 0.01
   \<and> js_get (facialBias (updateCalibration default_calibration (result_of ''sad'' (Num 0.9))
                (Some \<lparr>correctEmotion = Some ''sad''\<rparr>))) 2 = Num 0
   \<and> voiceBias (updateCalibration default_calibration (result_of ''sad'' (Num 0.9))
                (Some \<lparr>correctEmotion = Some ''sad''\<rparr>)) = replicate 7 (Num 0)"
proof -
  have i: "(1::nat) < 7" by simp
  have l: "correctEmotion \<lparr>correctEmotion = Some ''sad''\<rparr> = Some (emotions_primary ! 1)"
    by (simp add: emotions_primary_def)
  show ?thesis
    using updateCalibration_facial_entry [OF i l, of default_calibration "result_of ''sad'' (Num 0.9)"]
    by (simp add: updateCalibration_def if_truthy_def indexOf_def emotions_primary_def
        default_calibration_def js_get_def js_set_def Let_def numeral_eq_Suc)
qed

text \<open>
  C2 as stated fails for the modality \<open>voice\<close>: after feedback for \<open>sad\<close> (index 1) the
  voice bias at index 1 is not increased, and the facial bias has changed.
\<close>

theorem updateCalibration_voice_counterexample:
  "js_get (voiceBias (updateCalibration default_calibration (result_of ''sad'' (Num 0.9))
                (Some \<lparr>correctEmotion = Some ''sad''\<rparr>))) 1
     \<noteq> js_add (js_get (voiceBias default_calibration) 1)
           (js_mul (adaptationRate default_calibration) (Num 0.1))
   \<and> facialBias (updateCalibration default_calibration (result_of ''sad'' (Num 0.9))
                (Some \<lparr>correctEmotion = Some ''sad''\<rparr>))
     \<noteq> facialBias default_calibration"
  by (simp add: updateCalibration_def if_truthy_def indexOf_def emotions_primary_def
      default_calibration_def js_get_def js_set_def Let_def numeral_eq_Suc)

subsection \<open>The fusion pipeline returns\<close>

lemma length_js_set: "length (js_set xs i v) = max (length xs) (Suc i)"
  by (auto simp add: js_set_def)

lemma length_adjustedProbabilities: "4 \<le> length (adjustedProbabilities p probs)"
  by (simp add: adjustedProbabilities_def Let_def length_js_set)

lemma length_applyPersonalityAdjustment:
  "length (applyPersonalityAdjustment p probs) = length (adjustedProbabilities p probs)"
  by (simp add: applyPersonalityAdjustment_def Let_def)

lemma length_insert_ranked: "length (insert_ranked a bs) = Suc (length bs)"
  by (induction bs) simp_all

lemma length_sort_ranked: "length (sort_ranked xs) = length xs"
  by (induction xs) (simp_all add: sort_ranked_def length_insert_ranked)

lemma analyzeEmotionHierarchy_primary:
  assumes "probs \<noteq> []"
  shows "\<exists>p. primary (analyzeEmotionHierarchy probs) = Some p"
proof -
  let ?indexed = "map (\<lambda>(index, prob).
                      \<lparr>emotion = (if index < length emotions_primary
                                  then Some (emotions_primary ! index) else None),
                       probability = prob\<rparr>)
                    (zip [0..<length probs] probs)"
  have "length (sort_ranked ?indexed) = length probs"
    by (simp add: length_sort_ranked)
  with assms obtain x xs where "sort_ranked ?indexed = x # xs"
    by (cases "sort_ranked ?indexed") auto
  then show ?thesis
    by (simp add: analyzeEmotionHierarchy_def Let_def)
qed

lemma fuseEmotions_returns:
  assumes "fusionModel st = Some predict"
      and "predict (prepareFusionInput (personalityProfile st) now rs ctx) = Inr probs"
  shows "\<exists>r. fuseEmotions st now rs ctx = Inr r
           \<and> fused_probabilities r = applyPersonalityAdjustment (personalityProfile st) probs
           \<and> fused_confidence r
               = calculateFusionConfidence rs (applyPersonalityAdjustment (personalityProfile st) probs)
           \<and> modalityContributions r = calculateModalityContributions rs
           \<and> contextualFactors r = ctx"
proof -
  let ?adj = "applyPersonalityAdjustment (personalityProfile st) probs"
  have "?adj \<noteq> []"
    using length_adjustedProbabilities [of "personalityProfile st" probs]
    by (auto simp add: length_applyPersonalityAdjustment [symmetric])
  then obtain p where "primary (analyzeEmotionHierarchy ?adj) = Some p"
    using analyzeEmotionHierarchy_primary by blast
  with assms show ?thesis
    by (simp add: fuseEmotions_def Let_def)
qed

lemma fuseEmotions_not_loaded:
  "fusionModel st = None \<Longrightarrow> fuseEmotions st now rs ctx = Inl (Error ''Fusion model not loaded'')"
  by (simp add: fuseEmotions_def)

lemma push_result_falsy: "falsy s \<Longrightarrow> push_result (Inr rs) s f = Inr rs"
  by (auto simp add: push_result_def if_truthy_def falsy_def)

lemma detectEmotion_no_inputs:
  assumes "isInitialized st" and "falsy (image ins)" and "falsy (audio ins)"
      and "falsy (text_input ins)"
  shows "detectEmotion initialize now st ins ctx =
           (case fuseEmotions st now [] ctx of
              Inl e \<Rightarrow> (Inl e, st)
            | Inr fused \<Rightarrow>
                (Inr fused,
                 st\<lparr>calibrationData := updateCalibration (calibrationData st) fused (feedback ctx),
                    personalityProfile :=
                      updatePersonalityProfile (personalityProfile st) fused now\<rparr>))"
  using assms
  by (simp add: detectEmotion_def push_result_falsy Let_def split: sum.splits)

subsection \<open>Feedback with an unknown label\<close>

text \<open>
  C6, as amended. Absent feedback leaves the calibration as it is. So does feedback
  whose label is absent or outside \<open>emotions.primary\<close>: \<open>indexOf\<close> gives \<open>-1\<close> and
  nothing is written. \<open>updateCalibration\<close> has no failing path.
\<close>

theorem updateCalibration_unrecognized:
  "updateCalibration cal r None = cal
   \<and> ((case correctEmotion fb of None \<Rightarrow> True | Some l \<Rightarrow> l \<notin> set emotions_primary)
        \<longrightarrow> updateCalibration cal r (Some fb) = cal)"
  by (auto simp add: updateCalibration_def if_truthy_def indexOf_def indexOf_from_absent Let_def
      split: option.splits)

theorem updateCalibration_unrecognized_witness:
  "updateCalibration default_calibration (result_of ''sad'' (Num 0.9)) None = default_calibration
   \<and> ''bored'' \<notin> set emotions_primary
   \<and> updateCalibration default_calibration (result_of ''sad'' (Num 0.9))
        (Some \<lparr>correctEmotion = Some ''bored''\<rparr>) = default_calibration"
  using updateCalibration_unrecognized
          [of default_calibration "result_of ''sad'' (Num 0.9)" "\<lparr>correctEmotion = Some ''bored''\<rparr>"]
  by (simp add: emotions_primary_def)

text \<open>
  C6 as stated fails: a request whose feedback names the unknown label \<open>bored\<close> ends
  with a result, not with an error, and leaves the calibration unchanged.
\<close>

theorem unknown_label_counterexample:
  "\<not> isl (fst (detectEmotion (\<lambda>st. (None, st)) noon (fusion_only_engine mostly_sad) no_inputs
               (no_context\<lparr>feedback := Some \<lparr>correctEmotion = Some ''bored''\<rparr>\<rparr>)))
   \<and> calibrationData (snd (detectEmotion (\<lambda>st. (None, st)) noon (fusion_only_engine mostly_sad)
               no_inputs (no_context\<lparr>feedback := Some \<lparr>correctEmotion = Some ''bored''\<rparr>\<rparr>)))
     = default_calibration"
proof -
  let ?st = "fusion_only_engine mostly_sad"
  let ?ctx = "no_context\<lparr>feedback := Some \<lparr>correctEmotion = Some ''bored''\<rparr>\<rparr>"
  have model: "fusionModel ?st = Some (\<lambda>fusionInput. Inr mostly_sad)"
    by (simp add: fusion_only_engine_def)
  obtain r where r: "fuseEmotions ?st noon [] ?ctx = Inr r"
    using fuseEmotions_returns [OF model refl, where now = noon and rs = "[]" and ctx = ?ctx]
    by auto
  have init: "isInitialized ?st"
    by (simp add: fusion_only_engine_def)
  have cal: "calibrationData ?st = default_calibration"
    by (simp add: fusion_only_engine_def)
  have fb: "feedback ?ctx = Some \<lparr>correctEmotion = Some ''bored''\<rparr>"
    by (simp add: no_context_def)
  have upd: "updateCalibration default_calibration r (Some \<lparr>correctEmotion = Some ''bored''\<rparr>)
               = default_calibration"
    by (simp add: updateCalibration_def if_truthy_def indexOf_def emotions_primary_def)
  have "detectEmotion (\<lambda>st. (None, st)) noon ?st no_inputs ?ctx
          = (Inr r, ?st\<lparr>calibrationData := default_calibration,
                         personalityProfile :=
                           updatePersonalityProfile (personalityProfile ?st) r noon\<rparr>)"
    by (subst detectEmotion_no_inputs)
       (simp_all add: init no_inputs_def falsy_def r cal fb upd)
  then show ?thesis by simp
qed

subsection \<open>Personality profile\<close>

lemma updatePersonalityProfile_traits:
  assumes "traits_in_unit p"
  shows "traits_in_unit (updatePersonalityProfile p r now)"
  using assms
  by (simp add: traits_in_unit_def updatePersonalityProfile_def Let_def
      clamp01_in_unit in_unit_clamp01_add)

text \<open>
  What one call does to the two traits it may move: it adds \<open>0.01\<close> to \<open>extraversion\<close>
  for a primary label \<open>happy\<close> or \<open>excited\<close>, to \<open>neuroticism\<close> for \<open>sad\<close>, \<open>angry\<close>
  or \<open>fearful\<close>, and clamps.
\<close>

lemma updatePersonalityProfile_step:
  "extraversion (updatePersonalityProfile p r now)
     = clamp01 (if js_includes [''happy'', ''excited''] (emotion (primaryEmotion r))
                then js_add (extraversion p) (Num 0.01) else extraversion p)
   \<and> neuroticism (updatePersonalityProfile p r now)
     = clamp01 (if js_includes [''sad'', ''angry'', ''fearful''] (emotion (primaryEmotion r))
                then js_add (neuroticism p) (Num 0.01) else neuroticism p)"
  by (simp add: updatePersonalityProfile_def Let_def)

text \<open>
  C4. Trait values in \<open>[0, 1]\<close> stay in \<open>[0, 1]\<close> through every sequence of calls of
  \<open>updatePersonalityProfile\<close>, whatever the results and the clock readings.
\<close>

theorem traits_in_unit_preserved:
  "traits_in_unit p \<Longrightarrow> traits_in_unit (updatePersonalityProfile_all p calls)"
proof (induction calls arbitrary: p)
  case Nil
  then show ?case by simp
next
  case (Cons c calls)
  obtain r now where c: "c = (r, now)" by (cases c)
  from Cons.prems have "traits_in_unit (updatePersonalityProfile p r now)"
    by (rule updatePersonalityProfile_traits)
  then show ?case using Cons.IH c by simp
qed

theorem traits_in_unit_preserved_witness:
  "traits_in_unit (neutral_profile\<lparr>extraversion := Num 0.995\<rparr>)
   \<and> traits_in_unit (updatePersonalityProfile_all (neutral_profile\<lparr>extraversion := Num 0.995\<rparr>)
        [(result_of ''happy'' (Num 0.9), noon), (result_of ''sad'' (Num 0.9), noon)])
   \<and> extraversion (updatePersonalityProfile_all (neutral_profile\<lparr>extraversion := Num 0.995\<rparr>)
        [(result_of ''happy'' (Num 0.9), noon), (result_of ''sad'' (Num 0.9), noon)]) = Num 1
   \<and> neuroticism (updatePersonalityProfile_all (neutral_profile\<lparr>extraversion := Num 0.995\<rparr>)
        [(result_of ''happy'' (Num 0.9), noon), (result_of ''sad'' (Num 0.9), noon)]) = Num 0.51"
proof -
  have h: "traits_in_unit (neutral_profile\<lparr>extraversion := Num 0.995\<rparr>)"
    by (simp add: traits_in_unit_def neutral_profile_def)
  show ?thesis
    using h traits_in_unit_preserved [OF h,
        of "[(result_of ''happy'' (Num 0.9), noon), (result_of ''sad'' (Num 0.9), noon)]"]
    by (simp add: updatePersonalityProfile_def Let_def result_of_def js_includes_def
        neutral_profile_def clamp01_Num)
qed

text \<open>
  C10. On a profile with trait values in \<open>[0, 1]\<close>, a call leaves \<open>openness\<close>,
  \<open>conscientiousness\<close> and \<open>agreeableness\<close> as they are, whatever the result.
\<close>

theorem updatePersonalityProfile_frame:
  assumes "traits_in_unit p"
  shows "openness (updatePersonalityProfile p r now) = openness p
       \<and> conscientiousness (updatePersonalityProfile p r now) = conscientiousness p
       \<and> agreeableness (updatePersonalityProfile p r now) = agreeableness p"
  using assms
  by (simp add: traits_in_unit_def updatePersonalityProfile_def Let_def clamp01_in_unit)

theorem updatePersonalityProfile_frame_witness:
  "traits_in_unit neutral_profile
   \<and> openness (updatePersonalityProfile neutral_profile (result_of ''happy'' (Num 0.9)) noon) = Num 0.5
   \<and> conscientiousness (updatePersonalityProfile neutral_profile (result_of ''happy'' (Num 0.9)) noon)
       = Num 0.5
   \<and> agreeableness (updatePersonalityProfile neutral_profile (result_of ''happy'' (Num 0.9)) noon)
       = Num 0.5
   \<and> extraversion (updatePersonalityProfile neutral_profile (result_of ''happy'' (Num 0.9)) noon)
       = Num 0.51"
proof -
  have h: "traits_in_unit neutral_profile"
    by (simp add: traits_in_unit_def neutral_profile_def)
  show ?thesis
    using h updatePersonalityProfile_frame [OF h, of "result_of ''happy'' (Num 0.9)" noon]
    by (simp add: updatePersonalityProfile_def Let_def result_of_def js_includes_def
        neutral_profile_def clamp01_Num)
qed

subsection \<open>Fusion without observations\<close>

lemma indexOf_from_range:
  "indexOf_from eq k xs v = - 1
   \<or> (k \<le> indexOf_from eq k xs v \<and> indexOf_from eq k xs v < k + int (length xs))"
proof (induction xs arbitrary: k)
  case Nil
  then show ?case by simp
next
  case (Cons x xs)
  from Cons [of "k + 1"] show ?case by auto
qed

lemma length_js_set_inside: "i < length xs \<Longrightarrow> length (js_set xs i v) = length xs"
  by (simp add: js_set_def)

lemma length_encodeContext: "length (encodeContext ctx now) = 20"
proof -
  have act: "\<And>a. indexOf contextualFactors_activity a \<noteq> - 1
               \<Longrightarrow> 4 + nat (indexOf contextualFactors_activity a) < 20"
  proof -
    fix a
    assume "indexOf contextualFactors_activity a \<noteq> - 1"
    with indexOf_from_range [of "(=)" 0 contextualFactors_activity a]
    have "indexOf contextualFactors_activity a < 6"
      by (simp add: indexOf_def contextualFactors_activity_def)
    then show "4 + nat (indexOf contextualFactors_activity a) < 20" by simp
  qed
  show ?thesis
    by (simp add: encodeContext_def Let_def if_truthy_def length_js_set_inside act
        split: option.splits)
qed

lemma length_prepareFusionInput_empty: "length (prepareFusionInput p now [] ctx) = 25"
  by (simp add: prepareFusionInput_def length_encodeContext)

lemma calculateModalityAgreement_few:
  "length rs < 2 \<Longrightarrow> calculateModalityAgreement rs = Num 1"
  by (simp add: calculateModalityAgreement_def)

text \<open>
  C1, as amended. Neither \<open>fuseEmotions\<close> nor \<open>detectEmotion\<close> checks the number of
  observations. With none, and the fusion model loaded, the predictor is given the 25
  entries of the context encoding and the personality traits; when it answers,
  both return a result: the adjusted answer of the predictor, agreement \<open>1\<close>, and no
  modality contribution.
\<close>

theorem fuseEmotions_no_observations:
  assumes "fusionModel st = Some predict"
      and "predict (prepareFusionInput (personalityProfile st) now [] ctx) = Inr probs"
      and "isInitialized st"
      and "falsy (image ins)" and "falsy (audio ins)" and "falsy (text_input ins)"
  shows "\<exists>r. fuseEmotions st now [] ctx = Inr r
           \<and> fst (detectEmotion initialize now st ins ctx) = Inr r
           \<and> fused_probabilities r = applyPersonalityAdjustment (personalityProfile st) probs
           \<and> agreement (fused_confidence r) = Num 1
           \<and> modalityContributions r = Map.empty
           \<and> length (prepareFusionInput (personalityProfile st) now [] ctx) = 25"
proof -
  from fuseEmotions_returns [OF assms(1,2)] obtain r where
    r: "fuseEmotions st now [] ctx = Inr r"
    and probs: "fused_probabilities r = applyPersonalityAdjustment (personalityProfile st) probs"
    and conf: "fused_confidence r
                 = calculateFusionConfidence [] (applyPersonalityAdjustment (personalityProfile st) probs)"
    and contrib: "modalityContributions r = calculateModalityContributions []"
    by blast
  have "fst (detectEmotion initialize now st ins ctx) = Inr r"
    by (simp add: detectEmotion_no_inputs [OF assms(3-6)] r)
  moreover have "agreement (fused_confidence r) = Num 1"
    by (simp add: conf calculateFusionConfidence_def Let_def calculateModalityAgreement_few)
  moreover have "modalityContributions r = Map.empty"
    by (simp add: contrib calculateModalityContributions_def)
  ultimately show ?thesis
    using r probs by (simp add: length_prepareFusionInput_empty)
qed

lemma adjustment_mostly_sad:
  "applyPersonalityAdjustment neutral_profile mostly_sad
     = [Num (11 / 112), Num (69 / 112), Num (11 / 112), Num (3 / 56),
        Num (5 / 112), Num (5 / 112), Num (5 / 112)]"
  by (simp add: mostly_sad_def applyPersonalityAdjustment_def adjustedProbabilities_def Let_def
      js_set_def js_get_def neutral_profile_def js_sum_def)

theorem fuseEmotions_no_observations_witness:
  "fusionModel (fusion_only_engine mostly_sad) = Some (\<lambda>fusionInput. Inr mostly_sad)
   \<and> isInitialized (fusion_only_engine mostly_sad)
   \<and> falsy (image no_inputs) \<and> falsy (audio no_inputs) \<and> falsy (text_input no_inputs)
   \<and> (\<exists>r. fuseEmotions (fusion_only_engine mostly_sad) noon [] no_context = Inr r
          \<and> fst (detectEmotion (\<lambda>st. (None, st)) noon (fusion_only_engine mostly_sad)
                   no_inputs no_context) = Inr r
          \<and> fused_probabilities r
               = [Num (11 / 112), Num (69 / 112), Num (11 / 112), Num (3 / 56),
                  Num (5 / 112), Num (5 / 112), Num (5 / 112)]
          \<and> agreement (fused_confidence r) = Num 1)"
proof -
  have model: "fusionModel (fusion_only_engine mostly_sad) = Some (\<lambda>fusionInput. Inr mostly_sad)"
    by (simp add: fusion_only_engine_def)
  have init: "isInitialized (fusion_only_engine mostly_sad)"
    by (simp add: fusion_only_engine_def)
  have ins: "falsy (image no_inputs)" "falsy (audio no_inputs)" "falsy (text_input no_inputs)"
    by (simp_all add: falsy_def no_inputs_def)
  have prof: "personalityProfile (fusion_only_engine mostly_sad) = neutral_profile"
    by (simp add: fusion_only_engine_def)
  show ?thesis
    using fuseEmotions_no_observations [OF model refl init ins,
            where now = noon and ctx = no_context and initialize = "\<lambda>st. (None, st)"]
      model init ins
    by (auto simp add: prof adjustment_mostly_sad)
qed

text \<open>
  C1 as stated fails: with no observation at all, \<open>fuseEmotions\<close> and
  \<open>detectEmotion\<close> end with a result.
\<close>

theorem no_observations_counterexample:
  "\<not> isl (fuseEmotions (fusion_only_engine mostly_sad) noon [] no_context)
   \<and> \<not> isl (fst (detectEmotion (\<lambda>st. (None, st)) noon (fusion_only_engine mostly_sad)
                 no_inputs no_context))"
proof -
  let ?st = "fusion_only_engine mostly_sad"
  have model: "fusionModel ?st = Some (\<lambda>fusionInput. Inr mostly_sad)"
    by (simp add: fusion_only_engine_def)
  obtain r where r: "fuseEmotions ?st noon [] no_context = Inr r"
    using fuseEmotions_returns [OF model refl, where now = noon and rs = "[]" and ctx = no_context]
    by auto
  have "fst (detectEmotion (\<lambda>st. (None, st)) noon ?st no_inputs no_context) = Inr r"
    by (subst detectEmotion_no_inputs)
       (simp_all add: fusion_only_engine_def no_inputs_def falsy_def r [unfolded fusion_only_engine_def])
  with r show ?thesis by simp
qed

subsection \<open>Personality adjustment\<close>

lemma foldl_js_add_Num:
  "foldl js_add a xs = Num s \<Longrightarrow> (\<exists>r. a = Num r) \<and> (\<forall>x \<in> set xs. \<exists>v. x = Num v)"
proof (induction xs arbitrary: a)
  case Nil
  then show ?case by simp
next
  case (Cons x xs)
  from Cons.prems have "foldl js_add (js_add a x) xs = Num s" by simp
  from Cons.IH [OF this] obtain r where
    r: "js_add a x = Num r" and rest: "\<forall>y \<in> set xs. \<exists>v. y = Num v"
    by blast
  from r have "(\<exists>u. a = Num u) \<and> (\<exists>v. x = Num v)"
    by (cases a; cases x) simp_all
  with rest show ?case by simp
qed

lemma js_div_zero_not_finite: "js_div (Num v) (Num 0) \<in> {NaN, PosInf, NegInf}"
  by (simp add: signed_inf_def)

text \<open>
  C7, as amended. When the adjusted vector sums to zero, \<open>applyPersonalityAdjustment\<close>
  still returns: each entry is divided by zero, which gives \<open>NaN\<close> for a zero entry and
  an infinity of its sign for any other, so no entry of the returned vector is finite.
  \<open>fuseEmotions\<close> goes on and returns a result with this vector.
\<close>

theorem applyPersonalityAdjustment_zero_sum:
  assumes "js_sum (adjustedProbabilities p probs) = Num 0"
  shows "applyPersonalityAdjustment p probs
           = map (\<lambda>a. signed_inf (js_sign a)) (adjustedProbabilities p probs)
       \<and> (\<forall>y \<in> set (applyPersonalityAdjustment p probs). y \<in> {NaN, PosInf, NegInf})
       \<and> (fusionModel st = Some predict
            \<and> predict (prepareFusionInput (personalityProfile st) now rs ctx) = Inr probs
            \<and> personalityProfile st = p
            \<longrightarrow> (\<exists>r. fuseEmotions st now rs ctx = Inr r
                     \<and> fused_probabilities r = applyPersonalityAdjustment p probs))"
proof -
  let ?adj = "adjustedProbabilities p probs"
  from assms have fin: "\<forall>x \<in> set ?adj. \<exists>v. x = Num v"
    using foldl_js_add_Num [of "Num 0" ?adj 0] by (simp add: js_sum_def)
  have each: "\<And>x. x \<in> set ?adj \<Longrightarrow> js_div x (Num 0) = signed_inf (js_sign x)"
    using fin by auto
  have eq: "applyPersonalityAdjustment p probs = map (\<lambda>a. signed_inf (js_sign a)) ?adj"
    using each by (simp add: applyPersonalityAdjustment_def Let_def assms)
  have nonfin: "\<forall>y \<in> set (applyPersonalityAdjustment p probs). y \<in> {NaN, PosInf, NegInf}"
  proof
    fix y
    assume "y \<in> set (applyPersonalityAdjustment p probs)"
    then obtain x where x: "x \<in> set ?adj" and y: "y = js_div x (Num 0)"
      by (auto simp add: applyPersonalityAdjustment_def Let_def assms)
    from fin x obtain v where "x = Num v" by blast
    with y js_div_zero_not_finite [of v] show "y \<in> {NaN, PosInf, NegInf}" by simp
  qed
  have fuse: "fusionModel st = Some predict
            \<and> predict (prepareFusionInput (personalityProfile st) now rs ctx) = Inr probs
            \<and> personalityProfile st = p
            \<longrightarrow> (\<exists>r. fuseEmotions st now rs ctx = Inr r
                     \<and> fused_probabilities r = applyPersonalityAdjustment p probs)"
    using fuseEmotions_returns [of st predict now rs ctx probs] by blast
  from eq nonfin fuse show ?thesis by blast
qed

lemma adjusted_cancelling:
  "adjustedProbabilities neutral_profile [Num 0, Num 0, Num 0, Num 0, Num 1, Num (- 1), Num 0]
     = [Num 0, Num 0, Num 0, Num 0, Num 1, Num (- 1), Num 0]"
  by (simp add: adjustedProbabilities_def Let_def js_set_def js_get_def neutral_profile_def)

theorem applyPersonalityAdjustment_zero_sum_witness:
  "js_sum (adjustedProbabilities neutral_profile
             [Num 0, Num 0, Num 0, Num 0, Num 1, Num (- 1), Num 0]) = Num 0
   \<and> applyPersonalityAdjustment neutral_profile
        [Num 0, Num 0, Num 0, Num 0, Num 1, Num (- 1), Num 0]
       = [NaN, NaN, NaN, NaN, PosInf, NegInf, NaN]
   \<and> fusionModel (fusion_only_engine [Num 0, Num 0, Num 0, Num 0, Num 1, Num (- 1), Num 0])
       = Some (\<lambda>fusionInput. Inr [Num 0, Num 0, Num 0, Num 0, Num 1, Num (- 1), Num 0])
   \<and> personalityProfile (fusion_only_engine [Num 0, Num 0, Num 0, Num 0, Num 1, Num (- 1), Num 0])
       = neutral_profile
   \<and> (\<exists>r. fuseEmotions (fusion_only_engine [Num 0, Num 0, Num 0, Num 0, Num 1, Num (- 1), Num 0])
             noon [] no_context = Inr r
          \<and> fused_probabilities r = [NaN, NaN, NaN, NaN, PosInf, NegInf, NaN])"
proof -
  let ?v = "[Num 0, Num 0, Num 0, Num 0, Num 1, Num (- 1), Num 0]"
  have zero: "js_sum (adjustedProbabilities neutral_profile ?v) = Num 0"
    by (simp add: adjusted_cancelling js_sum_def)
  have model: "fusionModel (fusion_only_engine ?v) = Some (\<lambda>fusionInput. Inr ?v)"
    by (simp add: fusion_only_engine_def)
  have prof: "personalityProfile (fusion_only_engine ?v) = neutral_profile"
    by (simp add: fusion_only_engine_def)
  note T = applyPersonalityAdjustment_zero_sum [OF zero,
         where st = "fusion_only_engine ?v" and predict = "\<lambda>fusionInput. Inr ?v"
           and now = noon and rs = "[]" and ctx = no_context]
  from T have eq: "applyPersonalityAdjustment neutral_profile ?v
              = map (\<lambda>a. signed_inf (js_sign a)) (adjustedProbabilities neutral_profile ?v)"
    by (rule conjunct1)
  from T model prof
  have fuse: "\<exists>r. fuseEmotions (fusion_only_engine ?v) noon [] no_context = Inr r
                 \<and> fused_probabilities r = applyPersonalityAdjustment neutral_profile ?v"
    by blast
  have val: "applyPersonalityAdjustment neutral_profile ?v = [NaN, NaN, NaN, NaN, PosInf, NegInf, NaN]"
    by (simp add: eq adjusted_cancelling signed_inf_def)
  from zero val model prof fuse show ?thesis by simp
qed

text \<open>
  C7 as stated fails: for a predictor that answers with zeros, the adjusted vector sums
  to zero, \<open>applyPersonalityAdjustment\<close> returns a vector of \<open>NaN\<close>, and \<open>fuseEmotions\<close>
  ends with a result.
\<close>

theorem zero_sum_counterexample:
  "js_sum (adjustedProbabilities neutral_profile
             [Num 0, Num 0, Num 0, Num 0, Num 0, Num 0, Num 0]) = Num 0
   \<and> applyPersonalityAdjustment neutral_profile [Num 0, Num 0, Num 0, Num 0, Num 0, Num 0, Num 0]
       = [NaN, NaN, NaN, NaN, NaN, NaN, NaN]
   \<and> \<not> isl (fuseEmotions (fusion_only_engine [Num 0, Num 0, Num 0, Num 0, Num 0, Num 0, Num 0])
               noon [] no_context)"
proof -
  let ?v = "[Num 0, Num 0, Num 0, Num 0, Num 0, Num 0, Num 0]"
  have adj: "adjustedProbabilities neutral_profile ?v = ?v"
    by (simp add: adjustedProbabilities_def Let_def js_set_def js_get_def neutral_profile_def)
  have zero: "js_sum (adjustedProbabilities neutral_profile ?v) = Num 0"
    by (simp add: adj js_sum_def)
  have val: "applyPersonalityAdjustment neutral_profile ?v = [NaN, NaN, NaN, NaN, NaN, NaN, NaN]"
    by (simp add: applyPersonalityAdjustment_def Let_def adj js_sum_def signed_inf_def)
  have model: "fusionModel (fusion_only_engine ?v) = Some (\<lambda>fusionInput. Inr ?v)"
    by (simp add: fusion_only_engine_def)
  obtain r where "fuseEmotions (fusion_only_engine ?v) noon [] no_context = Inr r"
    using fuseEmotions_returns [OF model refl, where now = noon and rs = "[]" and ctx = no_context]
    by auto
  with zero val show ?thesis by simp
qed

lemma list_of_length_7:
  assumes "length rs = 7"
  obtains a b c d e f g where "rs = [a, b, c, d, e, f, g]"
  using assms by (auto simp add: numeral_eq_Suc length_Suc_conv)

lemma adjusted_seven:
  assumes "extraversion p = Num e" and "neuroticism p = Num n"
  shows "adjustedProbabilities p (map Num [a, b, c, d, x, y, z])
           = map Num [a * (1 + e * 0.2), b * (1 + n * 0.3), c * (1 + n * 0.2),
                      d * (1 + n * 0.4), x, y, z]"
  using assms
  by (simp add: adjustedProbabilities_def Let_def js_set_def js_get_def)

lemma js_sum_Num: "foldl js_add (Num s) (map Num xs) = Num (s + sum_list xs)"
  by (induction xs arbitrary: s) (simp_all add: add.assoc)

lemma js_sum_map_Num: "js_sum (map Num xs) = Num (sum_list xs)"
  by (simp add: js_sum_def js_sum_Num)

lemma scaled_grows: "0 \<le> (a::real) \<Longrightarrow> 0 \<le> t \<Longrightarrow> 0 \<le> k \<Longrightarrow> a \<le> a * (1 + t * k)"
proof -
  assume "0 \<le> a" "0 \<le> t" "0 \<le> k"
  then have "0 \<le> a * (t * k)" by simp
  then show ?thesis by (simp add: algebra_simps)
qed

lemma seven_quotients:
  assumes "(s::real) \<noteq> 0" and "s = a + b + c + d + x + y + z"
  shows "a / s + b / s + c / s + d / s + x / s + y / s + z / s = 1"
proof -
  have "a / s + b / s + c / s + d / s + x / s + y / s + z / s
          = (a + b + c + d + x + y + z) / s"
    by (simp add: add_divide_distrib)
  with assms show ?thesis by simp
qed

text \<open>
  C3. For a vector of seven non-negative finite entries with a positive sum and a
  profile whose extraversion \<open>e\<close> and neuroticism \<open>n\<close> lie in \<open>[0, 1]\<close>, entry \<open>i\<close> of
  the result is the entry of the input times the factor of its label, divided by the sum
  of these products; the result sums to \<open>1\<close> and has no negative entry.
\<close>

theorem applyPersonalityAdjustment_distribution:
  assumes len: "length rs = 7"
      and nonneg: "\<forall>x \<in> set rs. 0 \<le> x"
      and pos: "0 < sum_list rs"
      and e: "extraversion p = Num e" "0 \<le> e" "e \<le> 1"
      and n: "neuroticism p = Num n" "0 \<le> n" "n \<le> 1"
  shows "applyPersonalityAdjustment p (map Num rs)
           = map (\<lambda>i. Num (spec_factor e n (emotions_primary ! i) * rs ! i
                            / (\<Sum>j < 7. spec_factor e n (emotions_primary ! j) * rs ! j)))
               [0..<7]
       \<and> js_sum (applyPersonalityAdjustment p (map Num rs)) = Num 1
       \<and> (\<forall>y \<in> set (applyPersonalityAdjustment p (map Num rs)). \<exists>v. y = Num v \<and> 0 \<le> v)"
proof -
  from len obtain a b c d x y z where rs: "rs = [a, b, c, d, x, y, z]"
    by (rule list_of_length_7)
  from nonneg rs have nn: "0 \<le> a" "0 \<le> b" "0 \<le> c" "0 \<le> d" "0 \<le> x" "0 \<le> y" "0 \<le> z"
    by simp_all
  let ?a = "a * (1 + e * 0.2)" and ?b = "b * (1 + n * 0.3)"
  let ?c = "c * (1 + n * 0.2)" and ?d = "d * (1 + n * 0.4)"
  let ?S = "?a + ?b + ?c + ?d + x + y + z"
  have ge: "a \<le> ?a" "b \<le> ?b" "c \<le> ?c" "d \<le> ?d"
    by (rule scaled_grows [OF nn(1) e(2)], simp)
       (rule scaled_grows [OF nn(2) n(2)] scaled_grows [OF nn(3) n(2)]
             scaled_grows [OF nn(4) n(2)], simp)+
  from pos rs have "0 < a + b + c + d + x + y + z" by simp
  with ge have S: "0 < ?S" by linarith
  have nn': "0 \<le> ?a" "0 \<le> ?b" "0 \<le> ?c" "0 \<le> ?d"
    using ge nn by linarith+
  have adj: "adjustedProbabilities p (map Num rs) = map Num [?a, ?b, ?c, ?d, x, y, z]"
    unfolding rs by (rule adjusted_seven [OF e(1) n(1)])
  have sum: "js_sum (adjustedProbabilities p (map Num rs)) = Num ?S"
    unfolding adj js_sum_map_Num by simp
  have res: "applyPersonalityAdjustment p (map Num rs)
               = map Num [?a / ?S, ?b / ?S, ?c / ?S, ?d / ?S, x / ?S, y / ?S, z / ?S]"
    unfolding applyPersonalityAdjustment_def Let_def sum
    unfolding adj using S by simp
  have W: "(\<Sum>j < 7. spec_factor e n (emotions_primary ! j) * rs ! j) = ?S"
    by (simp add: rs emotions_primary_def spec_factor_def lessThan_Suc numeral_eq_Suc
        algebra_simps)
  have upt7: "[0..<7] = [0, 1, 2, 3, 4, 5, 6]"
    by (simp add: upt_rec)
  have first: "applyPersonalityAdjustment p (map Num rs)
           = map (\<lambda>i. Num (spec_factor e n (emotions_primary ! i) * rs ! i
                            / (\<Sum>j < 7. spec_factor e n (emotions_primary ! j) * rs ! j)))
               [0..<7]"
    unfolding W res upt7
    by (simp add: rs emotions_primary_def spec_factor_def algebra_simps)
  have one: "?a / ?S + ?b / ?S + ?c / ?S + ?d / ?S + x / ?S + y / ?S + z / ?S = 1"
    by (rule seven_quotients) (use S in simp_all)
  have second: "js_sum (applyPersonalityAdjustment p (map Num rs)) = Num 1"
    unfolding res js_sum_map_Num sum_list.Cons sum_list.Nil
    using one by (simp only: add_0_right add.assoc)
  have third: "\<forall>y \<in> set (applyPersonalityAdjustment p (map Num rs)). \<exists>v. y = Num v \<and> 0 \<le> v"
    unfolding res using nn nn' S by (auto intro!: divide_nonneg_pos)
  from first second third show ?thesis by blast
qed

text \<open>
  The scenario of the specification: \<open>sad\<close> at \<open>0.6\<close> and the neutral profile; \<open>sad\<close> is
  multiplied by \<open>1.15\<close> and stays the largest entry.
\<close>

theorem applyPersonalityAdjustment_distribution_witness:
  "length [0.1, 0.6, 0.1, 0.05, 0.05, 0.05, 0.05 :: real] = 7
   \<and> 0 < sum_list [0.1, 0.6, 0.1, 0.05, 0.05, 0.05, 0.05 :: real]
   \<and> extraversion neutral_profile = Num 0.5 \<and> neuroticism neutral_profile = Num 0.5
   \<and> applyPersonalityAdjustment neutral_profile
        (map Num [0.1, 0.6, 0.1, 0.05, 0.05, 0.05, 0.05])
       = [Num (11 / 112), Num (69 / 112), Num (11 / 112), Num (3 / 56),
          Num (5 / 112), Num (5 / 112), Num (5 / 112)]
   \<and> js_sum (applyPersonalityAdjustment neutral_profile
               (map Num [0.1, 0.6, 0.1, 0.05, 0.05, 0.05, 0.05])) = Num 1"
proof -
  let ?rs = "[0.1, 0.6, 0.1, 0.05, 0.05, 0.05, 0.05 :: real]"
  have len: "length ?rs = 7" by simp
  have nonneg: "\<forall>x \<in> set ?rs. 0 \<le> x" by simp
  have pos: "0 < sum_list ?rs" by simp
  have e: "extraversion neutral_profile = Num 0.5" by (simp add: neutral_profile_def)
  have n: "neuroticism neutral_profile = Num 0.5" by (simp add: neutral_profile_def)
  have half: "(0::real) \<le> 0.5" "(0.5::real) \<le> 1" by simp_all
  note T = applyPersonalityAdjustment_distribution [OF len nonneg pos e half n half]
  from T have one: "js_sum (applyPersonalityAdjustment neutral_profile (map Num ?rs)) = Num 1"
    by blast
  have val: "applyPersonalityAdjustment neutral_profile (map Num ?rs)
       = [Num (11 / 112), Num (69 / 112), Num (11 / 112), Num (3 / 56),
          Num (5 / 112), Num (5 / 112), Num (5 / 112)]"
    using adjustment_mostly_sad by (simp add: mostly_sad_def)
  from len pos e n val one show ?thesis by simp
qed

subsection \<open>Agreement between modalities\<close>

text \<open>
  For finite probabilities, \<open>maxIndex\<close> is the position of the first largest entry.
\<close>

lemma js_max_Num: "js_max (Num a) (Num b) = Num (max a b)"
  by (simp add: js_max_def max_def)

lemma foldl_js_max_Num: "foldl js_max (Num m) (map Num xs) = Num (fold max xs m)"
  by (induction xs arbitrary: m) (simp_all add: js_max_Num max.commute)

lemma Math_max_Num:
  assumes "xs \<noteq> []"
  shows "Math_max (map Num xs) = Num (Max (set xs))"
proof -
  from assms obtain y ys where xs: "xs = y # ys" by (cases xs) auto
  have "Math_max (map Num xs) = foldl js_max (Num y) (map Num ys)"
    by (simp add: Math_max_def xs js_max_def)
  also have "\<dots> = Num (fold max ys y)" by (rule foldl_js_max_Num)
  also have "fold max ys y = Max (set xs)" by (simp only: xs Max.set_eq_fold)
  finally show ?thesis .
qed

lemma js_eq_Num: "js_eq (Num a) (Num b) = (a = b)"
  by (simp add: js_eq_def)

lemma indexOf_from_first:
  assumes "m \<in> set xs"
  shows "\<exists>i < length xs. indexOf_from js_eq k (map Num xs) (Num m) = k + int i
           \<and> xs ! i = m \<and> (\<forall>j < i. xs ! j \<noteq> m)"
  using assms
proof (induction xs arbitrary: k)
  case Nil
  then show ?case by simp
next
  case (Cons x xs)
  show ?case
  proof (cases "x = m")
    case True
    then show ?thesis by (auto simp add: js_eq_Num)
  next
    case False
    with Cons.prems have "m \<in> set xs" by simp
    from Cons.IH [OF this, of "k + 1"] obtain i where
      i: "i < length xs" "indexOf_from js_eq (k + 1) (map Num xs) (Num m) = k + 1 + int i"
         "xs ! i = m" "\<forall>j < i. xs ! j \<noteq> m"
      by blast
    have "\<forall>j < Suc i. (x # xs) ! j \<noteq> m"
      using False i(4) by (auto simp add: less_Suc_eq_0_disj)
    with i False show ?thesis
      by (intro exI [of _ "Suc i"]) (simp add: js_eq_Num)
  qed
qed

lemma maxIndex_argmax:
  assumes "probabilities r = map Num xs" and "xs \<noteq> []"
  shows "\<exists>i < length xs. maxIndex r = int i
           \<and> (\<forall>j < length xs. xs ! j \<le> xs ! i) \<and> (\<forall>j < i. xs ! j < xs ! i)"
proof -
  let ?m = "Max (set xs)"
  from assms(2) have mem: "?m \<in> set xs" by (intro Max_in) simp_all
  from indexOf_from_first [OF mem, of 0] obtain i where
    i: "i < length xs" "indexOf_from js_eq 0 (map Num xs) (Num ?m) = int i"
       "xs ! i = ?m" "\<forall>j < i. xs ! j \<noteq> ?m"
    by auto
  have le: "\<forall>j < length xs. xs ! j \<le> xs ! i"
    by (simp add: i(3))
  have "\<forall>j < i. xs ! j < xs ! i"
  proof (intro allI impI)
    fix j
    assume "j < i"
    with i(1) le i(4) i(3) show "xs ! j < xs ! i"
      by (metis less_trans order_le_less)
  qed
  with i le show ?thesis
    by (intro exI [of _ i]) (simp add: maxIndex_def assms Math_max_Num js_indexOf_def)
qed

text \<open>The two loops count the matching pairs and all pairs.\<close>

lemma agreement_inner_eq:
  "agreement_inner ps i j (a, c) =
     (a + length (filter (\<lambda>k. ps ! i = ps ! k) [j..<length ps]), c + (length ps - j))"
proof (induction ps i j "(a, c)" arbitrary: a c rule: agreement_inner.induct)
  case (1 ps i j agreements comparisons)
  show ?case
  proof (cases "j < length ps")
    case True
    then have upt: "[j..<length ps] = j # [Suc j..<length ps]"
      by (simp add: upt_conv_Cons)
    show ?thesis
      using True "1" [OF True] by (subst agreement_inner.simps) (simp add: upt)
  next
    case False
    then show ?thesis by (subst agreement_inner.simps) simp
  qed
qed

lemma finite_pairs_from: "finite (pairs_from n i)"
proof -
  have "pairs_from n i \<subseteq> {0..<n} \<times> {0..<n}" by (auto simp: pairs_from_def)
  then show ?thesis by (rule finite_subset) simp
qed

lemma finite_matching_from: "finite (matching_from ps i)"
proof -
  have "matching_from ps i \<subseteq> pairs_from (length ps) i"
    by (auto simp: pairs_from_def matching_from_def)
  then show ?thesis by (rule finite_subset) (rule finite_pairs_from)
qed

lemma matching_from_step:
  assumes "i < length ps"
  shows "card (matching_from ps i)
         = length (filter (\<lambda>k. ps ! i = ps ! k) [Suc i..<length ps])
           + card (matching_from ps (Suc i))"
proof -
  let ?row = "{l. i < l \<and> l < length ps \<and> ps ! i = ps ! l}"
  have split: "matching_from ps i = Pair i ` ?row \<union> matching_from ps (Suc i)"
    by (auto simp: matching_from_def le_less Suc_le_eq)
  have disj: "Pair i ` ?row \<inter> matching_from ps (Suc i) = {}"
    by (auto simp: matching_from_def)
  have fin: "finite ?row" by simp
  have row: "length (filter (\<lambda>k. ps ! i = ps ! k) [Suc i..<length ps]) = card ?row"
  proof -
    have "distinct (filter (\<lambda>k. ps ! i = ps ! k) [Suc i..<length ps])"
      by simp
    then have "length (filter (\<lambda>k. ps ! i = ps ! k) [Suc i..<length ps])
          = card (set (filter (\<lambda>k. ps ! i = ps ! k) [Suc i..<length ps]))"
      by (rule distinct_card [symmetric])
    also have "set (filter (\<lambda>k. ps ! i = ps ! k) [Suc i..<length ps]) = ?row"
      by auto
    finally show ?thesis .
  qed
  have "card (matching_from ps i) = card (Pair i ` ?row) + card (matching_from ps (Suc i))"
    unfolding split using disj fin finite_matching_from
    by (subst card_Un_disjoint) auto
  also have "card (Pair i ` ?row) = card ?row"
    by (rule card_image) (simp add: inj_on_def)
  finally show ?thesis using row by simp
qed

lemma pairs_from_step:
  assumes "i < n"
  shows "card (pairs_from n i) = (n - Suc i) + card (pairs_from n (Suc i))"
proof -
  let ?row = "{Suc i..<n}"
  have split: "pairs_from n i = Pair i ` ?row \<union> pairs_from n (Suc i)"
    by (auto simp: pairs_from_def le_less Suc_le_eq image_iff)
  have disj: "Pair i ` ?row \<inter> pairs_from n (Suc i) = {}"
    by (auto simp: pairs_from_def)
  have "card (pairs_from n i) = card (Pair i ` ?row) + card (pairs_from n (Suc i))"
    unfolding split using disj finite_pairs_from
    by (subst card_Un_disjoint) auto
  also have "card (Pair i ` ?row) = card ?row"
    by (rule card_image) (simp add: inj_on_def)
  finally show ?thesis by simp
qed

lemma agreement_outer_eq:
  "agreement_outer ps i (a, c) =
     (a + card (matching_from ps i), c + card (pairs_from (length ps) i))"
proof (induction ps i "(a, c)" arbitrary: a c rule: agreement_outer.induct)
  case (1 ps i)
  show ?case
  proof (cases "i < length ps")
    case True
    show ?thesis
      using True "1" [OF True]
      by (subst agreement_outer.simps)
         (simp add: agreement_inner_eq matching_from_step pairs_from_step)
  next
    case False
    then have "matching_from ps i = {}" "pairs_from (length ps) i = {}"
      by (auto simp: matching_from_def pairs_from_def)
    with False show ?thesis by (subst agreement_outer.simps) simp
  qed
qed

lemma calculateModalityAgreement_many:
  assumes "2 \<le> length rs"
  shows "calculateModalityAgreement rs
           = Num (real (card {(i, j). i < j \<and> j < length rs
                                      \<and> maxIndex (rs ! i) = maxIndex (rs ! j)})
                  / real (card {(i, j). i < j \<and> j < length rs}))"
proof -
  let ?ps = "predictions rs"
  have len: "length ?ps = length rs" by (simp add: predictions_def)
  have M: "matching_from ?ps 0
             = {(i, j). i < j \<and> j < length rs \<and> maxIndex (rs ! i) = maxIndex (rs ! j)}"
    by (auto simp add: matching_from_def predictions_def)
  have P: "pairs_from (length rs) 0 = {(i, j). i < j \<and> j < length rs}"
    by (simp add: pairs_from_def)
  have "(0, 1) \<in> pairs_from (length rs) 0"
    using assms by (simp add: pairs_from_def)
  then have "card (pairs_from (length rs) 0) \<noteq> 0"
    using finite_pairs_from [of "length rs" 0] by auto
  then have pos: "0 < card (pairs_from (length rs) 0)" by simp
  have "agreement_outer ?ps 0 (0, 0)
          = (card (matching_from ?ps 0), card (pairs_from (length rs) 0))"
    by (simp add: agreement_outer_eq len)
  with assms pos show ?thesis
    by (simp add: calculateModalityAgreement_def M P [symmetric])
qed

lemma calculateModalityAgreement_two:
  "calculateModalityAgreement [a, b] = (if maxIndex a = maxIndex b then Num 1 else Num 0)"
  by (simp add: calculateModalityAgreement_def predictions_def agreement_outer.simps
      agreement_inner.simps)

lemma is_argmax_unique: "is_argmax xs i \<Longrightarrow> is_argmax xs j \<Longrightarrow> i = j"
proof (rule ccontr)
  assume i: "is_argmax xs i" and j: "is_argmax xs j" and ne: "i \<noteq> j"
  show False
  proof (cases "i < j")
    case True
    with j have "xs ! i < xs ! j" by (simp add: is_argmax_def)
    moreover from i j have "xs ! j \<le> xs ! i" by (simp add: is_argmax_def)
    ultimately show False by simp
  next
    case False
    with ne have "j < i" by simp
    with i have "xs ! j < xs ! i" by (simp add: is_argmax_def)
    moreover from i j have "xs ! i \<le> xs ! j" by (simp add: is_argmax_def)
    ultimately show False by simp
  qed
qed

lemma maxIndex_is_argmax:
  assumes "probabilities r = map Num xs" and "is_argmax xs i"
  shows "maxIndex r = int i"
proof -
  from assms(2) have "xs \<noteq> []" by (auto simp add: is_argmax_def)
  from maxIndex_argmax [OF assms(1) this] obtain k where
    k: "maxIndex r = int k" "is_argmax xs k"
    by (auto simp add: is_argmax_def)
  from is_argmax_unique [OF k(2) assms(2)] k(1) show ?thesis by simp
qed

text \<open>
  C5, as amended. The vector compared is the field \<open>probabilities\<close> of each observation
  as the pipeline built it. Whenever these vectors are finite, \<open>vec r\<close>, and \<open>am r\<close> is
  the argmax of \<open>vec r\<close>: fewer than two observations give agreement \<open>1\<close>; otherwise
  the agreement is the number of pairs of positions \<open>i < j\<close> with the same argmax divided
  by the number of all such pairs; two observations give \<open>1\<close> when their argmax is the
  same and \<open>0\<close> when it differs.
\<close>

theorem calculateModalityAgreement_argmax:
  assumes "\<forall>r \<in> set rs. probabilities r = map Num (vec r) \<and> is_argmax (vec r) (am r)"
  shows "(length rs < 2 \<longrightarrow> calculateModalityAgreement rs = Num 1)
       \<and> (2 \<le> length rs \<longrightarrow>
            calculateModalityAgreement rs
              = Num (real (card {(i, j). i < j \<and> j < length rs \<and> am (rs ! i) = am (rs ! j)})
                     / real (card {(i, j). i < j \<and> j < length rs})))
       \<and> (length rs = 2 \<and> am (rs ! 0) = am (rs ! 1) \<longrightarrow> calculateModalityAgreement rs = Num 1)
       \<and> (length rs = 2 \<and> am (rs ! 0) \<noteq> am (rs ! 1) \<longrightarrow> calculateModalityAgreement rs = Num 0)"
proof -
  have mi: "\<And>k. k < length rs \<Longrightarrow> maxIndex (rs ! k) = int (am (rs ! k))"
    using assms by (auto intro: maxIndex_is_argmax)
  have sets: "{(i, j). i < j \<and> j < length rs \<and> maxIndex (rs ! i) = maxIndex (rs ! j)}
                = {(i, j). i < j \<and> j < length rs \<and> am (rs ! i) = am (rs ! j)}"
    using mi by auto
  have many: "2 \<le> length rs \<longrightarrow>
            calculateModalityAgreement rs
              = Num (real (card {(i, j). i < j \<and> j < length rs \<and> am (rs ! i) = am (rs ! j)})
                     / real (card {(i, j). i < j \<and> j < length rs}))"
    using calculateModalityAgreement_many [of rs] by (simp add: sets)
  have two: "length rs = 2 \<longrightarrow>
               calculateModalityAgreement rs
                 = (if am (rs ! 0) = am (rs ! 1) then Num 1 else Num 0)"
  proof
    assume len: "length rs = 2"
    then obtain a b where rs: "rs = [a, b]"
      by (auto simp add: numeral_eq_Suc length_Suc_conv)
    from mi [of 0] mi [of 1] len have "maxIndex a = int (am a)" "maxIndex b = int (am b)"
      by (simp_all add: rs)
    then show "calculateModalityAgreement rs
                 = (if am (rs ! 0) = am (rs ! 1) then Num 1 else Num 0)"
      by (simp add: rs calculateModalityAgreement_two)
  qed
  from many two show ?thesis
    by (simp add: calculateModalityAgreement_few)
qed

lemma is_argmax_sets:
  "is_argmax xs i
     = (i < length xs \<and> (\<forall>x \<in> set xs. x \<le> xs ! i) \<and> (\<forall>x \<in> set (take i xs). x < xs ! i))"
proof (cases "i < length xs")
  case True
  then have "(\<forall>x \<in> set (take i xs). x < xs ! i) = (\<forall>j < i. xs ! j < xs ! i)"
    by (simp add: all_set_conv_all_nth)
  then show ?thesis
    by (simp add: is_argmax_def all_set_conv_all_nth)
next
  case False
  then show ?thesis by (simp add: is_argmax_def)
qed

lemma is_argmax_examples:
  "is_argmax [0.7, 0.1, 0.05, 0.05, 0.05, 0.025, 0.025] 0"
  "is_argmax [0.5, 0.2, 0.1, 0.05, 0.05, 0.05, 0.05] 0"
  "is_argmax [0.1, 0.6, 0.1, 0.05, 0.05, 0.05, 0.05] 1"
  "is_argmax raw_happy 0"
  by (simp_all add: is_argmax_sets raw_happy_def)

lemma maxIndex_examples:
  "maxIndex facial_happy = 0" "maxIndex voice_happy = 0" "maxIndex text_sad = 1"
  by (simp_all add: maxIndex_def facial_happy_def voice_happy_def text_sad_def observation_def
      mostly_sad_def Math_max_def js_max_def js_indexOf_def js_eq_def)

theorem calculateModalityAgreement_argmax_witness:
  "is_argmax (finite_values (probabilities facial_happy)) 0
   \<and> is_argmax (finite_values (probabilities voice_happy)) 0
   \<and> is_argmax (finite_values (probabilities text_sad)) 1
   \<and> calculateModalityAgreement [facial_happy] = Num 1
   \<and> calculateModalityAgreement [facial_happy, voice_happy, text_sad] = Num (1 / 3)
   \<and> calculateModalityAgreement [facial_happy, voice_happy] = Num 1
   \<and> calculateModalityAgreement [facial_happy, text_sad] = Num 0"
proof -
  let ?vec = "\<lambda>r. finite_values (probabilities r)"
  let ?am = "\<lambda>r. if modality r = ''text'' then 1 else (0::nat)"
  have f: "probabilities facial_happy = map Num (?vec facial_happy)"
          "is_argmax (?vec facial_happy) 0" "modality facial_happy = ''facial''"
    by (simp_all add: facial_happy_def observation_def finite_values_def is_argmax_sets)
  have v: "probabilities voice_happy = map Num (?vec voice_happy)"
          "is_argmax (?vec voice_happy) 0" "modality voice_happy = ''voice''"
    by (simp_all add: voice_happy_def observation_def finite_values_def is_argmax_sets)
  have t: "probabilities text_sad = map Num (?vec text_sad)"
          "is_argmax (?vec text_sad) 1" "modality text_sad = ''text''"
    by (simp_all add: text_sad_def observation_def mostly_sad_def finite_values_def
        is_argmax_sets)
  have all: "\<forall>r \<in> set [facial_happy, voice_happy, text_sad].
               probabilities r = map Num (?vec r) \<and> is_argmax (?vec r) (?am r)"
    using f v t by simp
  have single: "\<forall>r \<in> set [facial_happy].
               probabilities r = map Num (?vec r) \<and> is_argmax (?vec r) (?am r)"
    using f by simp
  have fv: "\<forall>r \<in> set [facial_happy, voice_happy].
               probabilities r = map Num (?vec r) \<and> is_argmax (?vec r) (?am r)"
    using f v by simp
  have ft: "\<forall>r \<in> set [facial_happy, text_sad].
               probabilities r = map Num (?vec r) \<and> is_argmax (?vec r) (?am r)"
    using f t by simp
  from calculateModalityAgreement_argmax [OF single]
  have "length [facial_happy] < 2 \<longrightarrow> calculateModalityAgreement [facial_happy] = Num 1"
    by (rule conjunct1)
  then have one: "calculateModalityAgreement [facial_happy] = Num 1"
    by simp
  from calculateModalityAgreement_argmax [OF fv]
  have "length [facial_happy, voice_happy] = 2
          \<and> ?am ([facial_happy, voice_happy] ! 0) = ?am ([facial_happy, voice_happy] ! 1)
        \<longrightarrow> calculateModalityAgreement [facial_happy, voice_happy] = Num 1"
    by blast
  moreover have "length [facial_happy, voice_happy] = 2
          \<and> ?am ([facial_happy, voice_happy] ! 0) = ?am ([facial_happy, voice_happy] ! 1)"
    by (simp add: f(3) v(3))
  ultimately have agree: "calculateModalityAgreement [facial_happy, voice_happy] = Num 1"
    by (rule mp)
  from calculateModalityAgreement_argmax [OF ft]
  have "length [facial_happy, text_sad] = 2
          \<and> ?am ([facial_happy, text_sad] ! 0) \<noteq> ?am ([facial_happy, text_sad] ! 1)
        \<longrightarrow> calculateModalityAgreement [facial_happy, text_sad] = Num 0"
    by blast
  moreover have "length [facial_happy, text_sad] = 2
          \<and> ?am ([facial_happy, text_sad] ! 0) \<noteq> ?am ([facial_happy, text_sad] ! 1)"
    by (simp add: f(3) t(3))
  ultimately have disagree: "calculateModalityAgreement [facial_happy, text_sad] = Num 0"
    by (rule mp)
  from calculateModalityAgreement_argmax [OF all]
  have "2 \<le> length [facial_happy, voice_happy, text_sad] \<longrightarrow>
      calculateModalityAgreement [facial_happy, voice_happy, text_sad]
      = Num (real (card {(i, j). i < j \<and> j < length [facial_happy, voice_happy, text_sad]
                \<and> ?am ([facial_happy, voice_happy, text_sad] ! i)
                    = ?am ([facial_happy, voice_happy, text_sad] ! j)})
             / real (card {(i, j). i < j \<and> j < length [facial_happy, voice_happy, text_sad]}))"
    by blast
  then have counted: "calculateModalityAgreement [facial_happy, voice_happy, text_sad]
      = Num (real (card {(i, j). i < j \<and> j < length [facial_happy, voice_happy, text_sad]
                \<and> ?am ([facial_happy, voice_happy, text_sad] ! i)
                    = ?am ([facial_happy, voice_happy, text_sad] ! j)})
             / real (card {(i, j). i < j \<and> j < length [facial_happy, voice_happy, text_sad]}))"
    by simp
  have three: "calculateModalityAgreement [facial_happy, voice_happy, text_sad] = Num (1 / 3)"
    by (simp add: calculateModalityAgreement_def predictions_def maxIndex_examples
        agreement_outer.simps agreement_inner.simps)
  from counted f(2) v(2) t(2) one agree disagree three show ?thesis by simp
qed

text \<open>
  C5 as stated fails on the raw outputs. Both classifiers answer the same raw vector,
  whose argmax is \<open>happy\<close>, so the raw argmaxes match; the facial vector is calibrated
  before it is compared, its largest entry becomes \<open>sad\<close>, and the agreement of the
  request is \<open>0\<close>.
\<close>

theorem raw_agreement_counterexample:
  "is_argmax raw_happy 0
   \<and> map_sum id probabilities (processFacialEmotion biased_engine ''face.jpg'')
       = Inr [Num 0.5, Num 0.7, Num 0.02, Num 0.02, Num 0.02, Num 0.02, Num 0.02]
   \<and> map_sum id probabilities (processVoiceEmotion biased_engine ''voice.wav'')
       = Inr (map Num raw_happy)
   \<and> map_sum id (agreement \<circ> fused_confidence)
         (fst (detectEmotion (\<lambda>st. (None, st)) noon biased_engine face_and_voice no_context))
       = Inr (Num 0)"
proof -
  define F where
    "F = \<lparr>probabilities = [Num 0.5, Num 0.7, Num 0.02, Num 0.02, Num 0.02, Num 0.02, Num 0.02],
          confidence = Num 0.7, modality = ''facial''\<rparr>"
  define V where
    "V = \<lparr>probabilities = map Num raw_happy, confidence = Num 0.5, modality = ''voice''\<rparr>"
  have F: "processFacialEmotion biased_engine ''face.jpg'' = Inr F"
    by (simp add: F_def processFacialEmotion_def biased_engine_def raw_happy_def
        applyCalibratedBias_def js_get_def clamp01_Num Math_max_def js_max_def upt_rec)
  have V: "processVoiceEmotion biased_engine ''voice.wav'' = Inr V"
    by (simp add: V_def processVoiceEmotion_def biased_engine_def raw_happy_def
        applyCalibratedBias_def js_get_def clamp01_Num Math_max_def js_max_def upt_rec
        numeral_eq_Suc)
  have mF: "maxIndex F = 1"
    by (simp add: F_def maxIndex_def Math_max_def js_max_def js_indexOf_def js_eq_def)
  have mV: "maxIndex V = 0"
    by (simp add: V_def maxIndex_def raw_happy_def Math_max_def js_max_def js_indexOf_def
        js_eq_def)
  have agr: "calculateModalityAgreement [F, V] = Num 0"
    by (simp add: calculateModalityAgreement_two mF mV)
  have model: "fusionModel biased_engine = Some (\<lambda>fusionInput. Inr mostly_sad)"
    by (simp add: biased_engine_def)
  obtain r where r: "fuseEmotions biased_engine noon [F, V] no_context = Inr r"
    and conf: "fused_confidence r
                 = calculateFusionConfidence [F, V]
                     (applyPersonalityAdjustment (personalityProfile biased_engine) mostly_sad)"
    using fuseEmotions_returns [OF model refl, where now = noon and rs = "[F, V]"
            and ctx = no_context]
    by auto
  have a0: "agreement (fused_confidence r) = Num 0"
    by (simp add: conf calculateFusionConfidence_def Let_def agr)
  have init: "isInitialized biased_engine"
    by (simp add: biased_engine_def)
  have "fst (detectEmotion (\<lambda>st. (None, st)) noon biased_engine face_and_voice no_context) = Inr r"
    by (simp add: detectEmotion_def init face_and_voice_def push_result_def if_truthy_def F V r
        Let_def)
  with a0 show ?thesis
    by (simp add: F V F_def V_def is_argmax_examples)
qed

subsection \<open>Wellness and trends\<close>






text \<open>
  The methods that call an undefined method raise on every input: \<open>assessWellness\<close>
  after it has computed score and level, \<open>analyzeTrends\<close> on two entries or more,
  \<open>generateRecommendations\<close> and \<open>getEmotionInsights\<close> always.
\<close>

lemma assessWellness_raises: "assessWellness r history = Inl TypeError"
  by (simp add: assessWellness_def identifyWellnessFactors_def Let_def)

lemma identifyPatterns_raises: "identifyPatterns history = Inl TypeError"
  by (simp add: identifyPatterns_def findDailyPatterns_def)

lemma analyzeTrends_raises: "2 \<le> length history \<Longrightarrow> analyzeTrends history = Inl TypeError"
  by (simp add: analyzeTrends_def Let_def identifyPatterns_raises split: list.splits)

lemma generateRecommendations_raises: "generateRecommendations r history = Inl TypeError"
  by (simp add: generateRecommendations_def getMusicRecommendation_def getGenresForEmotion_def
      Let_def)

lemma getEmotionInsights_raises: "getEmotionInsights r history = Inl TypeError"
proof (cases "analyzeTrends history")
  case (Inl e)
  then have "e = TypeError"
    by (auto simp add: analyzeTrends_def Let_def identifyPatterns_raises
        split: if_splits list.splits)
  with Inl show ?thesis by (simp add: getEmotionInsights_def Let_def)
next
  case (Inr t)
  then show ?thesis
    by (simp add: getEmotionInsights_def Let_def generateRecommendations_raises)
qed






end
